theory Spec2Isabelle
  imports Main "HOL-Library.Word"
begin

section \<open>Conversion of Prometheus metric families to remote-write time series\<close>

text \<open>
  The repository holds two versions of \<^verbatim>\<open>MetricFamiliesToTimeSeries\<close>: the one of
  \<^verbatim>\<open>src/unnamed/part_000\<close> expands a histogram or summary into its \<^verbatim>\<open>_sum\<close>,
  \<^verbatim>\<open>_count\<close> and per-bucket or per-quantile series, the one of
  \<^verbatim>\<open>src/cmd/promremotecli/main.go\<close> emits one series per metric. Both are embedded
  here, together with \<^verbatim>\<open>FlattenTimeSeriesMap\<close>, which is the same in the two files.
\<close>

subsection \<open>Go values\<close>

text \<open>
  A \<^verbatim>\<open>float64\<close> is carried as its IEEE 754 binary64 bit pattern: the conversion only
  copies such values, converts unsigned counters to them and prints them. \<^verbatim>\<open>uint64\<close>
  and \<^verbatim>\<open>int64\<close> are 64-bit words whose arithmetic wraps around. A \<^verbatim>\<open>time.Time\<close> is
  the instant it denotes, counted in nanoseconds since the Unix epoch.
\<close>

type_synonym float64 = "64 word"
type_synonym uint64 = "64 word"
type_synonym int64 = "64 word"
type_synonym Time = int

text \<open>The constant \<^verbatim>\<open>time.Millisecond\<close>: a \<^verbatim>\<open>Duration\<close> is an \<^verbatim>\<open>int64\<close> of nanoseconds.\<close>

definition time_Millisecond :: int64 where
  "time_Millisecond = 1000000"

text \<open>
  \<^verbatim>\<open>time.Unix(sec, nsec)\<close> of the Go standard library: the instant \<^verbatim>\<open>sec\<close> seconds and
  \<^verbatim>\<open>nsec\<close> nanoseconds after the epoch, both read as signed 64-bit integers.
\<close>

definition time_Unix :: "int64 \<Rightarrow> int64 \<Rightarrow> Time" where
  "time_Unix sec nsec = sint sec * 1000000000 + sint nsec"

text \<open>
  The Go conversion \<^verbatim>\<open>float64(x)\<close> of a \<^verbatim>\<open>uint64\<close>: the nearest binary64 value, ties
  to the even mantissa. \<open>bits_Len64 n\<close> is the number of binary digits of \<open>n\<close>.
\<close>

function bits_Len64 :: "int \<Rightarrow> int" where
  "bits_Len64 n = (if n \<le> 0 then 0 else 1 + bits_Len64 (n div 2))"
  by pat_completeness auto
termination
  by (relation "measure nat") auto

declare bits_Len64.simps [simp del]

definition float64_of_uint64 :: "uint64 \<Rightarrow> float64" where
  "float64_of_uint64 x =
     (let n = uint x in
      if n = 0 then 0
      else
        let e = bits_Len64 n - 1 in
        if e \<le> 52 then word_of_int ((e + 1023) * 2 ^ 52 + (n * 2 ^ nat (52 - e) - 2 ^ 52))
        else
          let sh = nat (e - 52); q = n div 2 ^ sh; r = n mod 2 ^ sh; half = 2 ^ (sh - 1);
              q' = (if half < r \<or> (r = half \<and> odd q) then q + 1 else q)
          in word_of_int ((e + 1023) * 2 ^ 52 + (q' - 2 ^ 52)))"

text \<open>The bit pattern of \<^verbatim>\<open>math.Inf(+1)\<close>.\<close>

definition math_Inf :: float64 where
  "math_Inf = 0x7FF0000000000000"

subsection \<open>The snapshot: \<^verbatim>\<open>dto\<close> messages\<close>

text \<open>
  The messages of \<^verbatim>\<open>github.com/prometheus/client_model/go\<close>, with the fields the
  conversion reads. A scalar field holds what its \<^verbatim>\<open>Get\<close> accessor returns (an unset
  field reads as the zero value); a payload pointer of a \<^verbatim>\<open>Metric\<close> is an option, since
  the conversion tests it against \<^verbatim>\<open>nil\<close>; a repeated field is a list of messages.
\<close>

record LabelPair =
  LabelPair_Name :: string
  LabelPair_Value :: string

record Counter =
  Counter_Value :: float64

record Gauge =
  Gauge_Value :: float64

record Untyped =
  Untyped_Value :: float64

record Bucket =
  Bucket_CumulativeCount :: uint64
  Bucket_UpperBound :: float64

record Histogram =
  Histogram_SampleCount :: uint64
  Histogram_SampleSum :: float64
  Histogram_Bucket :: "Bucket list"

record Quantile =
  Quantile_Quantile :: float64
  Quantile_Value :: float64

record Summary =
  Summary_SampleCount :: uint64
  Summary_SampleSum :: float64
  Summary_Quantile :: "Quantile list"

record Metric =
  Metric_Label :: "LabelPair list"
  Metric_Gauge :: "Gauge option"
  Metric_Counter :: "Counter option"
  Metric_Summary :: "Summary option"
  Metric_Untyped :: "Untyped option"
  Metric_Histogram :: "Histogram option"
  Metric_TimestampMs :: int64

record MetricFamily =
  MetricFamily_Name :: string
  MetricFamily_Metric :: "Metric list"

subsection \<open>The output: \<^verbatim>\<open>promremote\<close> time series\<close>

record Label =
  Label_Name :: string
  Label_Value :: string

record Datapoint =
  Datapoint_Timestamp :: Time
  Datapoint_Value :: float64

record TimeSeries =
  TimeSeries_Labels :: "Label list"
  TimeSeries_Datapoint :: Datapoint

subsection \<open>\<^verbatim>\<open>MetricFamiliesToTimeSeries\<close> of \<^verbatim>\<open>part_000\<close>\<close>

text \<open>
  Lines 273 to 279: the labels of the metric, copied one by one into a fresh slice.
\<close>

definition metric_labels :: "Metric \<Rightarrow> Label list" where
  "metric_labels metric =
     foldl (\<lambda>labels labelPair.
              labels @ [\<lparr>Label_Name = LabelPair_Name labelPair,
                         Label_Value = LabelPair_Value labelPair\<rparr>])
       [] (Metric_Label metric)"

text \<open>Line 282: the timestamp shared by every series of the metric.\<close>

definition metric_timestamp :: "Metric \<Rightarrow> Time" where
  "metric_timestamp metric = time_Unix 0 (Metric_TimestampMs metric * time_Millisecond)"

text \<open>
  Lines 272 to 427, the body of the loop over the metrics of a family: it takes the slice
  \<^verbatim>\<open>series\<close> and returns it with the series of this metric appended. The \<^verbatim>\<open>switch\<close>
  takes the first payload that is not \<^verbatim>\<open>nil\<close>, in the order counter, gauge, histogram,
  summary, and has no default case. \<open>fmt_g\<close> stands for \<^verbatim>\<open>fmt.Sprintf("%g", x)\<close> of the
  Go standard library: the conversion is embedded for every such function, and what \<^verbatim>\<open>%g\<close>
  prints for a given \<^verbatim>\<open>float64\<close> is a property of that library, not of this code.
\<close>

definition convert_metric ::
  "(float64 \<Rightarrow> string) \<Rightarrow> string \<Rightarrow> Metric \<Rightarrow> TimeSeries list \<Rightarrow> TimeSeries list" where
  "convert_metric fmt_g metricName metric series =
     (let labels = metric_labels metric;
          timestamp = metric_timestamp metric
      in case Metric_Counter metric of
           Some counter \<Rightarrow>
             (let counterLabels = labels @ [\<lparr>Label_Name = ''__name__'', Label_Value = metricName\<rparr>]
              in series @ [\<lparr>TimeSeries_Labels = counterLabels,
                             TimeSeries_Datapoint =
                               \<lparr>Datapoint_Timestamp = timestamp,
                                Datapoint_Value = Counter_Value counter\<rparr>\<rparr>])
         | None \<Rightarrow>
        (case Metric_Gauge metric of
           Some gauge \<Rightarrow>
             (let gaugeLabels = labels @ [\<lparr>Label_Name = ''__name__'', Label_Value = metricName\<rparr>]
              in series @ [\<lparr>TimeSeries_Labels = gaugeLabels,
                             TimeSeries_Datapoint =
                               \<lparr>Datapoint_Timestamp = timestamp,
                                Datapoint_Value = Gauge_Value gauge\<rparr>\<rparr>])
         | None \<Rightarrow>
        (case Metric_Histogram metric of
           Some histogram \<Rightarrow>
             (let sumLabels = [] @ labels;
                  sumLabels = sumLabels @
                    [\<lparr>Label_Name = ''__name__'', Label_Value = metricName @ ''_sum''\<rparr>];
                  series = series @
                    [\<lparr>TimeSeries_Labels = sumLabels,
                      TimeSeries_Datapoint =
                        \<lparr>Datapoint_Timestamp = timestamp,
                         Datapoint_Value = Histogram_SampleSum histogram\<rparr>\<rparr>];
                  countLabels = [] @ labels;
                  countLabels = countLabels @
                    [\<lparr>Label_Name = ''__name__'', Label_Value = metricName @ ''_count''\<rparr>];
                  series = series @
                    [\<lparr>TimeSeries_Labels = countLabels,
                      TimeSeries_Datapoint =
                        \<lparr>Datapoint_Timestamp = timestamp,
                         Datapoint_Value = float64_of_uint64 (Histogram_SampleCount histogram)\<rparr>\<rparr>]
              in foldl (\<lambda>series bucket.
                    (let bucketLabels = [] @ labels;
                         bucketLabels = bucketLabels @
                           [\<lparr>Label_Name = ''le'', Label_Value = fmt_g (Bucket_UpperBound bucket)\<rparr>,
                            \<lparr>Label_Name = ''__name__'', Label_Value = metricName @ ''_bucket''\<rparr>]
                     in series @
                          [\<lparr>TimeSeries_Labels = bucketLabels,
                            TimeSeries_Datapoint =
                              \<lparr>Datapoint_Timestamp = timestamp,
                               Datapoint_Value =
                                 float64_of_uint64 (Bucket_CumulativeCount bucket)\<rparr>\<rparr>]))
                   series (Histogram_Bucket histogram))
         | None \<Rightarrow>
        (case Metric_Summary metric of
           Some summary \<Rightarrow>
             (let sumLabels = [] @ labels;
                  sumLabels = sumLabels @
                    [\<lparr>Label_Name = ''__name__'', Label_Value = metricName @ ''_sum''\<rparr>];
                  series = series @
                    [\<lparr>TimeSeries_Labels = sumLabels,
                      TimeSeries_Datapoint =
                        \<lparr>Datapoint_Timestamp = timestamp,
                         Datapoint_Value = Summary_SampleSum summary\<rparr>\<rparr>];
                  countLabels = [] @ labels;
                  countLabels = countLabels @
                    [\<lparr>Label_Name = ''__name__'', Label_Value = metricName @ ''_count''\<rparr>];
                  series = series @
                    [\<lparr>TimeSeries_Labels = countLabels,
                      TimeSeries_Datapoint =
                        \<lparr>Datapoint_Timestamp = timestamp,
                         Datapoint_Value = float64_of_uint64 (Summary_SampleCount summary)\<rparr>\<rparr>]
              in foldl (\<lambda>series quantile.
                    (let quantileLabels = [] @ labels;
                         quantileLabels = quantileLabels @
                           [\<lparr>Label_Name = ''quantile'',
                             Label_Value = fmt_g (Quantile_Quantile quantile)\<rparr>,
                            \<lparr>Label_Name = ''__name__'', Label_Value = metricName\<rparr>]
                     in series @
                          [\<lparr>TimeSeries_Labels = quantileLabels,
                            TimeSeries_Datapoint =
                              \<lparr>Datapoint_Timestamp = timestamp,
                               Datapoint_Value = Quantile_Value quantile\<rparr>\<rparr>]))
                   series (Summary_Quantile summary))
         | None \<Rightarrow> series))))"

text \<open>Lines 268 to 428: the series of one family, starting from the empty slice.\<close>

definition convert_metrics ::
  "(float64 \<Rightarrow> string) \<Rightarrow> string \<Rightarrow> Metric list \<Rightarrow> TimeSeries list \<Rightarrow> TimeSeries list" where
  "convert_metrics fmt_g metricName metrics series =
     foldl (\<lambda>series metric. convert_metric fmt_g metricName metric series) series metrics"

definition convert_family :: "(float64 \<Rightarrow> string) \<Rightarrow> MetricFamily \<Rightarrow> TimeSeries list" where
  "convert_family fmt_g metricFamily =
     convert_metrics fmt_g (MetricFamily_Name metricFamily) (MetricFamily_Metric metricFamily) []"

text \<open>
  Lines 262 to 434: the map starts empty, and each family in turn stores its series under
  its name (line 430), replacing what an earlier family of the same name stored.
\<close>

definition MetricFamiliesToTimeSeries ::
  "(float64 \<Rightarrow> string) \<Rightarrow> MetricFamily list \<Rightarrow> (string \<rightharpoonup> TimeSeries list)" where
  "MetricFamiliesToTimeSeries fmt_g metricFamilies =
     foldl (\<lambda>result metricFamily.
              result(MetricFamily_Name metricFamily \<mapsto> convert_family fmt_g metricFamily))
       Map.empty metricFamilies"

subsection \<open>\<^verbatim>\<open>MetricFamiliesToTimeSeries\<close> of \<^verbatim>\<open>cmd/promremotecli/main.go\<close>\<close>

text \<open>
  Lines 248 to 288 of \<^verbatim>\<open>main.go\<close>: the name label is appended to the labels before the
  \<^verbatim>\<open>switch\<close>, the \<^verbatim>\<open>switch\<close> only chooses a value (\<^verbatim>\<open>0.0\<close> when no case applies), and
  one series is appended whatever the payload is.
\<close>

definition convert_metric_main :: "string \<Rightarrow> Metric \<Rightarrow> TimeSeries list \<Rightarrow> TimeSeries list" where
  "convert_metric_main metricName metric series =
     (let labels = metric_labels metric;
          labels = labels @ [\<lparr>Label_Name = ''__name__'', Label_Value = metricName\<rparr>];
          v = (case Metric_Counter metric of
                 Some counter \<Rightarrow> Counter_Value counter
               | None \<Rightarrow>
              (case Metric_Gauge metric of
                 Some gauge \<Rightarrow> Gauge_Value gauge
               | None \<Rightarrow>
              (case Metric_Histogram metric of
                 Some histogram \<Rightarrow> Histogram_SampleSum histogram
               | None \<Rightarrow>
              (case Metric_Summary metric of
                 Some summary \<Rightarrow> Summary_SampleSum summary
               | None \<Rightarrow> 0))))
      in series @
           [\<lparr>TimeSeries_Labels = labels,
             TimeSeries_Datapoint =
               \<lparr>Datapoint_Timestamp =
                  time_Unix 0 (Metric_TimestampMs metric * time_Millisecond),
                Datapoint_Value = v\<rparr>\<rparr>])"

definition convert_metrics_main ::
  "string \<Rightarrow> Metric list \<Rightarrow> TimeSeries list \<Rightarrow> TimeSeries list" where
  "convert_metrics_main metricName metrics series =
     foldl (\<lambda>series metric. convert_metric_main metricName metric series) series metrics"

definition convert_family_main :: "MetricFamily \<Rightarrow> TimeSeries list" where
  "convert_family_main metricFamily =
     convert_metrics_main (MetricFamily_Name metricFamily) (MetricFamily_Metric metricFamily) []"

definition MetricFamiliesToTimeSeries_main ::
  "MetricFamily list \<Rightarrow> (string \<rightharpoonup> TimeSeries list)" where
  "MetricFamiliesToTimeSeries_main metricFamilies =
     foldl (\<lambda>result metricFamily.
              result(MetricFamily_Name metricFamily \<mapsto> convert_family_main metricFamily))
       Map.empty metricFamilies"

subsection \<open>\<^verbatim>\<open>FlattenTimeSeriesMap\<close>\<close>

text \<open>
  Go visits the entries of a map in an order it does not fix. The order of one run of the
  \<^verbatim>\<open>range\<close> loop is the list \<open>order\<close> of the keys as they are visited; \<open>range_order\<close>
  says that the loop visits every key of the map once.
\<close>

definition range_order :: "string list \<Rightarrow> (string \<rightharpoonup> TimeSeries list) \<Rightarrow> bool" where
  "range_order order timeSeriesMap \<longleftrightarrow> distinct order \<and> set order = dom timeSeriesMap"

definition FlattenTimeSeriesMap ::
  "string list \<Rightarrow> (string \<rightharpoonup> TimeSeries list) \<Rightarrow> TimeSeries list" where
  "FlattenTimeSeriesMap order timeSeriesMap =
     foldl (\<lambda>result k. case timeSeriesMap k of
                           Some series \<Rightarrow> result @ series
                         | None \<Rightarrow> result)
       [] order"

subsection \<open>Values and snapshots of the examples\<close>

text \<open>
  Modelled from the spec: \<^verbatim>\<open>fmt.Sprintf("%g", x)\<close> belongs to the Go standard library and
  is not part of the repository. The theorems below hold for every formatter \<open>fmt_g\<close>; where
  an example needs the text of a label, it uses this table of the renderings the
  specification names (section 8: \<^verbatim>\<open>0.5\<close>, \<^verbatim>\<open>200\<close>, \<^verbatim>\<open>500\<close>, \<^verbatim>\<open>1000\<close> and \<^verbatim>\<open>+Inf\<close>), keyed
  by the bit pattern of the value. No example formats another value.

  The binary64 bit patterns of the examples: \<^verbatim>\<open>0x3FE0000000000000\<close> is 0.5,
  \<^verbatim>\<open>0x3FF0000000000000\<close> is 1, \<^verbatim>\<open>0x4000000000000000\<close> is 2, \<^verbatim>\<open>0x4008000000000000\<close> is 3,
  \<^verbatim>\<open>0x4069000000000000\<close> is 200, \<^verbatim>\<open>0x407F400000000000\<close> is 500,
  \<^verbatim>\<open>0x408F400000000000\<close> is 1000, \<^verbatim>\<open>0x40B7700000000000\<close> is 6000 and
  \<^verbatim>\<open>0x7FF0000000000000\<close> is positive infinity.
\<close>

definition fmt_g_examples :: "float64 \<Rightarrow> string" where
  "fmt_g_examples x =
     (if x = 0x3FE0000000000000 then ''0.5''
      else if x = 0x4069000000000000 then ''200''
      else if x = 0x407F400000000000 then ''500''
      else if x = 0x408F400000000000 then ''1000''
      else if x = math_Inf then ''+Inf''
      else ''?'')"

definition example_requests :: MetricFamily where
  "example_requests =
     \<lparr>MetricFamily_Name = ''http_requests_total'',
      MetricFamily_Metric =
        [\<lparr>Metric_Label = [\<lparr>LabelPair_Name = ''code'', LabelPair_Value = ''200''\<rparr>],
          Metric_Gauge = None, Metric_Counter = Some \<lparr>Counter_Value = 0x4008000000000000\<rparr>,
          Metric_Summary = None, Metric_Untyped = None, Metric_Histogram = None,
          Metric_TimestampMs = 1000\<rparr>,
         \<lparr>Metric_Label = [\<lparr>LabelPair_Name = ''code'', LabelPair_Value = ''500''\<rparr>],
          Metric_Gauge = None, Metric_Counter = Some \<lparr>Counter_Value = 0x3FF0000000000000\<rparr>,
          Metric_Summary = None, Metric_Untyped = None, Metric_Histogram = None,
          Metric_TimestampMs = 2000\<rparr>]\<rparr>"

definition example_up :: MetricFamily where
  "example_up =
     \<lparr>MetricFamily_Name = ''up'',
      MetricFamily_Metric =
        [\<lparr>Metric_Label = [], Metric_Gauge = Some \<lparr>Gauge_Value = 0x3FF0000000000000\<rparr>,
          Metric_Counter = None, Metric_Summary = None, Metric_Untyped = None,
          Metric_Histogram = None, Metric_TimestampMs = 0\<rparr>]\<rparr>"

definition example_latency :: MetricFamily where
  "example_latency =
     \<lparr>MetricFamily_Name = ''latency_ms'',
      MetricFamily_Metric =
        [\<lparr>Metric_Label = [], Metric_Gauge = None, Metric_Counter = None, Metric_Summary = None,
          Metric_Untyped = None,
          Metric_Histogram =
            Some \<lparr>Histogram_SampleCount = 3, Histogram_SampleSum = 0x40B7700000000000,
                  Histogram_Bucket =
                    [\<lparr>Bucket_CumulativeCount = 1, Bucket_UpperBound = 0x407F400000000000\<rparr>,
                     \<lparr>Bucket_CumulativeCount = 2, Bucket_UpperBound = 0x408F400000000000\<rparr>,
                     \<lparr>Bucket_CumulativeCount = 3, Bucket_UpperBound = math_Inf\<rparr>]\<rparr>,
          Metric_TimestampMs = 0\<rparr>]\<rparr>"

definition example_latency_finite :: MetricFamily where
  "example_latency_finite =
     \<lparr>MetricFamily_Name = ''latency_ms'',
      MetricFamily_Metric =
        [\<lparr>Metric_Label = [], Metric_Gauge = None, Metric_Counter = None, Metric_Summary = None,
          Metric_Untyped = None,
          Metric_Histogram =
            Some \<lparr>Histogram_SampleCount = 3, Histogram_SampleSum = 0x40B7700000000000,
                  Histogram_Bucket =
                    [\<lparr>Bucket_CumulativeCount = 1, Bucket_UpperBound = 0x407F400000000000\<rparr>,
                     \<lparr>Bucket_CumulativeCount = 2, Bucket_UpperBound = 0x408F400000000000\<rparr>]\<rparr>,
          Metric_TimestampMs = 0\<rparr>]\<rparr>"

definition example_rpc :: MetricFamily where
  "example_rpc =
     \<lparr>MetricFamily_Name = ''rpc_latency'',
      MetricFamily_Metric =
        [\<lparr>Metric_Label = [\<lparr>LabelPair_Name = ''service'', LabelPair_Value = ''api''\<rparr>],
          Metric_Gauge = None, Metric_Counter = None,
          Metric_Summary =
            Some \<lparr>Summary_SampleCount = 2, Summary_SampleSum = 0x407F400000000000,
                  Summary_Quantile =
                    [\<lparr>Quantile_Quantile = 0x3FE0000000000000,
                      Quantile_Value = 0x4069000000000000\<rparr>]\<rparr>,
          Metric_Untyped = None, Metric_Histogram = None, Metric_TimestampMs = 0\<rparr>]\<rparr>"

definition example_mixed :: MetricFamily where
  "example_mixed =
     \<lparr>MetricFamily_Name = ''mixed'',
      MetricFamily_Metric =
        [\<lparr>Metric_Label = [], Metric_Gauge = None,
          Metric_Counter = Some \<lparr>Counter_Value = 0x4008000000000000\<rparr>,
          Metric_Summary = None, Metric_Untyped = None, Metric_Histogram = None,
          Metric_TimestampMs = 0\<rparr>,
         \<lparr>Metric_Label = [], Metric_Gauge = None, Metric_Counter = None,
          Metric_Summary = None, Metric_Untyped = Some \<lparr>Untyped_Value = 0x4069000000000000\<rparr>,
          Metric_Histogram = None, Metric_TimestampMs = 0\<rparr>,
         \<lparr>Metric_Label = [], Metric_Gauge = Some \<lparr>Gauge_Value = 0x3FF0000000000000\<rparr>,
          Metric_Counter = None, Metric_Summary = None, Metric_Untyped = None,
          Metric_Histogram = None, Metric_TimestampMs = 0\<rparr>]\<rparr>"

definition example_no_metrics :: MetricFamily where
  "example_no_metrics = \<lparr>MetricFamily_Name = ''idle'', MetricFamily_Metric = []\<rparr>"

definition example_reserved :: "MetricFamily list" where
  "example_reserved =
     [\<lparr>MetricFamily_Name = ''jobs'',
       MetricFamily_Metric =
         [\<lparr>Metric_Label = [\<lparr>LabelPair_Name = ''__name__'', LabelPair_Value = ''other''\<rparr>],
           Metric_Gauge = None, Metric_Counter = Some \<lparr>Counter_Value = 0x3FF0000000000000\<rparr>,
           Metric_Summary = None, Metric_Untyped = None, Metric_Histogram = None,
           Metric_TimestampMs = 0\<rparr>]\<rparr>,
      \<lparr>MetricFamily_Name = ''latency_ms'',
       MetricFamily_Metric =
         [\<lparr>Metric_Label = [\<lparr>LabelPair_Name = ''le'', LabelPair_Value = ''low''\<rparr>],
           Metric_Gauge = None, Metric_Counter = None, Metric_Summary = None,
           Metric_Untyped = None,
           Metric_Histogram =
             Some \<lparr>Histogram_SampleCount = 1, Histogram_SampleSum = 0x4069000000000000,
                   Histogram_Bucket =
                     [\<lparr>Bucket_CumulativeCount = 1, Bucket_UpperBound = math_Inf\<rparr>]\<rparr>,
           Metric_TimestampMs = 0\<rparr>]\<rparr>,
      \<lparr>MetricFamily_Name = ''rpc_latency'',
       MetricFamily_Metric =
         [\<lparr>Metric_Label = [\<lparr>LabelPair_Name = ''quantile'', LabelPair_Value = ''mine''\<rparr>],
           Metric_Gauge = None, Metric_Counter = None,
           Metric_Summary =
             Some \<lparr>Summary_SampleCount = 1, Summary_SampleSum = 0x4069000000000000,
                   Summary_Quantile =
                     [\<lparr>Quantile_Quantile = 0x3FE0000000000000,
                       Quantile_Value = 0x4069000000000000\<rparr>]\<rparr>,
           Metric_Untyped = None, Metric_Histogram = None, Metric_TimestampMs = 0\<rparr>]\<rparr>]"

definition example_requests_total :: MetricFamily where
  "example_requests_total =
     \<lparr>MetricFamily_Name = ''requests_total'',
      MetricFamily_Metric =
        [\<lparr>Metric_Label = [], Metric_Gauge = None,
          Metric_Counter = Some \<lparr>Counter_Value = 0x4008000000000000\<rparr>,
          Metric_Summary = None, Metric_Untyped = None, Metric_Histogram = None,
          Metric_TimestampMs = 0\<rparr>]\<rparr>"

definition example_far_future :: MetricFamily where
  "example_far_future =
     \<lparr>MetricFamily_Name = ''requests_total'',
      MetricFamily_Metric =
        [\<lparr>Metric_Label = [], Metric_Gauge = None,
          Metric_Counter = Some \<lparr>Counter_Value = 0x4008000000000000\<rparr>,
          Metric_Summary = None, Metric_Untyped = None, Metric_Histogram = None,
          Metric_TimestampMs = 9223372036855\<rparr>]\<rparr>"

section \<open>The loops as list functions\<close>

text \<open>
  Every loop of the conversion appends to a slice, so what a loop adds does not depend on
  what the slice held before. The lemmas below give each branch of the \<^verbatim>\<open>switch\<close> in
  closed form and split the loops at any metric and any family.
\<close>

lemma foldl_snoc_map: "foldl (\<lambda>acc x. acc @ [f x]) a xs = a @ map f xs"
  by (induction xs arbitrary: a) simp_all

lemma metric_labels_map:
  "metric_labels metric =
     map (\<lambda>labelPair. \<lparr>Label_Name = LabelPair_Name labelPair,
                        Label_Value = LabelPair_Value labelPair\<rparr>) (Metric_Label metric)"
  by (simp add: metric_labels_def foldl_snoc_map)

lemma convert_metric_counter:
  "Metric_Counter metric = Some counter \<Longrightarrow>
   convert_metric fmt_g metricName metric series =
     series @ [\<lparr>TimeSeries_Labels =
                  metric_labels metric @ [\<lparr>Label_Name = ''__name__'', Label_Value = metricName\<rparr>],
                TimeSeries_Datapoint =
                  \<lparr>Datapoint_Timestamp = metric_timestamp metric,
                   Datapoint_Value = Counter_Value counter\<rparr>\<rparr>]"
  by (simp add: convert_metric_def Let_def)

lemma convert_metric_gauge:
  "Metric_Counter metric = None \<Longrightarrow> Metric_Gauge metric = Some gauge \<Longrightarrow>
   convert_metric fmt_g metricName metric series =
     series @ [\<lparr>TimeSeries_Labels =
                  metric_labels metric @ [\<lparr>Label_Name = ''__name__'', Label_Value = metricName\<rparr>],
                TimeSeries_Datapoint =
                  \<lparr>Datapoint_Timestamp = metric_timestamp metric,
                   Datapoint_Value = Gauge_Value gauge\<rparr>\<rparr>]"
  by (simp add: convert_metric_def Let_def)

lemma convert_metric_histogram:
  "Metric_Counter metric = None \<Longrightarrow> Metric_Gauge metric = None \<Longrightarrow>
   Metric_Histogram metric = Some histogram \<Longrightarrow>
   convert_metric fmt_g metricName metric series =
     series @
     [\<lparr>TimeSeries_Labels =
         metric_labels metric @
           [\<lparr>Label_Name = ''__name__'', Label_Value = metricName @ ''_sum''\<rparr>],
       TimeSeries_Datapoint =
         \<lparr>Datapoint_Timestamp = metric_timestamp metric,
          Datapoint_Value = Histogram_SampleSum histogram\<rparr>\<rparr>,
      \<lparr>TimeSeries_Labels =
         metric_labels metric @
           [\<lparr>Label_Name = ''__name__'', Label_Value = metricName @ ''_count''\<rparr>],
       TimeSeries_Datapoint =
         \<lparr>Datapoint_Timestamp = metric_timestamp metric,
          Datapoint_Value = float64_of_uint64 (Histogram_SampleCount histogram)\<rparr>\<rparr>] @
     map (\<lambda>bucket.
            \<lparr>TimeSeries_Labels =
               metric_labels metric @
                 [\<lparr>Label_Name = ''le'', Label_Value = fmt_g (Bucket_UpperBound bucket)\<rparr>,
                  \<lparr>Label_Name = ''__name__'', Label_Value = metricName @ ''_bucket''\<rparr>],
             TimeSeries_Datapoint =
               \<lparr>Datapoint_Timestamp = metric_timestamp metric,
                Datapoint_Value = float64_of_uint64 (Bucket_CumulativeCount bucket)\<rparr>\<rparr>)
       (Histogram_Bucket histogram)"
  by (simp add: convert_metric_def Let_def foldl_snoc_map)

lemma convert_metric_summary:
  "Metric_Counter metric = None \<Longrightarrow> Metric_Gauge metric = None \<Longrightarrow>
   Metric_Histogram metric = None \<Longrightarrow> Metric_Summary metric = Some summary \<Longrightarrow>
   convert_metric fmt_g metricName metric series =
     series @
     [\<lparr>TimeSeries_Labels =
         metric_labels metric @
           [\<lparr>Label_Name = ''__name__'', Label_Value = metricName @ ''_sum''\<rparr>],
       TimeSeries_Datapoint =
         \<lparr>Datapoint_Timestamp = metric_timestamp metric,
          Datapoint_Value = Summary_SampleSum summary\<rparr>\<rparr>,
      \<lparr>TimeSeries_Labels =
         metric_labels metric @
           [\<lparr>Label_Name = ''__name__'', Label_Value = metricName @ ''_count''\<rparr>],
       TimeSeries_Datapoint =
         \<lparr>Datapoint_Timestamp = metric_timestamp metric,
          Datapoint_Value = float64_of_uint64 (Summary_SampleCount summary)\<rparr>\<rparr>] @
     map (\<lambda>quantile.
            \<lparr>TimeSeries_Labels =
               metric_labels metric @
                 [\<lparr>Label_Name = ''quantile'', Label_Value = fmt_g (Quantile_Quantile quantile)\<rparr>,
                  \<lparr>Label_Name = ''__name__'', Label_Value = metricName\<rparr>],
             TimeSeries_Datapoint =
               \<lparr>Datapoint_Timestamp = metric_timestamp metric,
                Datapoint_Value = Quantile_Value quantile\<rparr>\<rparr>)
       (Summary_Quantile summary)"
  by (simp add: convert_metric_def Let_def foldl_snoc_map)

lemma convert_metric_other:
  "Metric_Counter metric = None \<Longrightarrow> Metric_Gauge metric = None \<Longrightarrow>
   Metric_Histogram metric = None \<Longrightarrow> Metric_Summary metric = None \<Longrightarrow>
   convert_metric fmt_g metricName metric series = series"
  by (simp add: convert_metric_def Let_def)

lemma convert_metric_append:
  "convert_metric fmt_g metricName metric series =
     series @ convert_metric fmt_g metricName metric []"
proof (cases "Metric_Counter metric")
  case (Some counter)
  then show ?thesis by (simp add: convert_metric_counter)
next
  case c: None
  show ?thesis
  proof (cases "Metric_Gauge metric")
    case (Some gauge)
    with c show ?thesis by (simp add: convert_metric_gauge)
  next
    case g: None
    show ?thesis
    proof (cases "Metric_Histogram metric")
      case (Some histogram)
      with c g show ?thesis by (simp add: convert_metric_histogram)
    next
      case h: None
      show ?thesis
      proof (cases "Metric_Summary metric")
        case (Some summary)
        with c g h show ?thesis by (simp add: convert_metric_summary)
      next
        case None
        with c g h show ?thesis by (simp add: convert_metric_other)
      qed
    qed
  qed
qed

lemma convert_metrics_Nil: "convert_metrics fmt_g metricName [] series = series"
  by (simp add: convert_metrics_def)

lemma convert_metrics_Cons:
  "convert_metrics fmt_g metricName (metric # metrics) series =
     convert_metrics fmt_g metricName metrics (convert_metric fmt_g metricName metric series)"
  by (simp add: convert_metrics_def)

lemma convert_metrics_append:
  "convert_metrics fmt_g metricName metrics series =
     series @ convert_metrics fmt_g metricName metrics []"
proof (induction metrics arbitrary: series)
  case Nil
  show ?case by (simp add: convert_metrics_Nil)
next
  case (Cons metric metrics)
  have "convert_metrics fmt_g metricName (metric # metrics) series =
        convert_metric fmt_g metricName metric series @ convert_metrics fmt_g metricName metrics []"
    by (simp add: convert_metrics_Cons Cons.IH [of "convert_metric fmt_g metricName metric series"])
  also have "\<dots> = series @ convert_metric fmt_g metricName metric [] @
                      convert_metrics fmt_g metricName metrics []"
    by (simp add: convert_metric_append [of fmt_g metricName metric series])
  also have "\<dots> = series @ convert_metrics fmt_g metricName (metric # metrics) []"
    by (simp add: convert_metrics_Cons Cons.IH [of "convert_metric fmt_g metricName metric []"])
  finally show ?case .
qed

lemma convert_metrics_split:
  "convert_metrics fmt_g metricName (before @ metric # after) [] =
     convert_metrics fmt_g metricName before [] @
     convert_metric fmt_g metricName metric [] @
     convert_metrics fmt_g metricName after []"
proof -
  have "convert_metrics fmt_g metricName (before @ metric # after) [] =
        convert_metrics fmt_g metricName after
          (convert_metric fmt_g metricName metric (convert_metrics fmt_g metricName before []))"
    by (simp add: convert_metrics_def)
  also have "\<dots> = convert_metric fmt_g metricName metric (convert_metrics fmt_g metricName before []) @
                   convert_metrics fmt_g metricName after []"
    by (rule convert_metrics_append)
  also have "\<dots> = (convert_metrics fmt_g metricName before [] @
                    convert_metric fmt_g metricName metric []) @
                   convert_metrics fmt_g metricName after []"
    by (simp add: convert_metric_append [of fmt_g metricName metric "convert_metrics fmt_g metricName before []"])
  finally show ?thesis by simp
qed

lemma foldl_upd_last:
  "\<forall>g \<in> set post. key g \<noteq> k \<Longrightarrow>
   foldl (\<lambda>result x. result(key x \<mapsto> val x)) result post k = result k"
  by (induction post arbitrary: result) auto

lemma foldl_upd_lookup:
  assumes "\<forall>g \<in> set post. key g \<noteq> key x"
  shows "foldl (\<lambda>result x. result(key x \<mapsto> val x)) result (pre @ x # post) (key x) = Some (val x)"
  using foldl_upd_last [OF assms, of val] by simp

lemma foldl_upd_dom:
  "dom (foldl (\<lambda>result x. result(key x \<mapsto> val x)) result xs) = dom result \<union> key ` set xs"
  by (induction xs arbitrary: result) auto

lemma foldl_upd_ran:
  "foldl (\<lambda>result x. result(key x \<mapsto> val x)) result xs k = Some v \<Longrightarrow>
   result k = Some v \<or> (\<exists>x \<in> set xs. key x = k \<and> v = val x)"
proof (induction xs arbitrary: result)
  case Nil
  then show ?case by simp
next
  case (Cons x xs)
  from Cons.prems
  have "foldl (\<lambda>result x. result(key x \<mapsto> val x)) (result(key x \<mapsto> val x)) xs k = Some v"
    by (simp only: foldl_Cons)
  from Cons.IH [OF this] show ?case
    by (auto split: if_splits)
qed

lemma MetricFamiliesToTimeSeries_lookup:
  assumes "\<forall>g \<in> set post. MetricFamily_Name g \<noteq> MetricFamily_Name metricFamily"
  shows "MetricFamiliesToTimeSeries fmt_g (pre @ metricFamily # post) (MetricFamily_Name metricFamily) =
           Some (convert_family fmt_g metricFamily)"
  unfolding MetricFamiliesToTimeSeries_def
  by (rule foldl_upd_lookup [OF assms])

lemma convert_metric_main_eq:
  "convert_metric_main metricName metric series =
     series @
     [\<lparr>TimeSeries_Labels =
         metric_labels metric @ [\<lparr>Label_Name = ''__name__'', Label_Value = metricName\<rparr>],
       TimeSeries_Datapoint =
         \<lparr>Datapoint_Timestamp = metric_timestamp metric,
          Datapoint_Value =
            (case Metric_Counter metric of
               Some counter \<Rightarrow> Counter_Value counter
             | None \<Rightarrow>
            (case Metric_Gauge metric of
               Some gauge \<Rightarrow> Gauge_Value gauge
             | None \<Rightarrow>
            (case Metric_Histogram metric of
               Some histogram \<Rightarrow> Histogram_SampleSum histogram
             | None \<Rightarrow>
            (case Metric_Summary metric of
               Some summary \<Rightarrow> Summary_SampleSum summary
             | None \<Rightarrow> 0))))\<rparr>\<rparr>]"
  by (simp add: convert_metric_main_def metric_timestamp_def Let_def)

lemma convert_metric_main_append:
  "convert_metric_main metricName metric series =
     series @ convert_metric_main metricName metric []"
  by (simp add: convert_metric_main_eq)

lemma convert_metrics_main_Cons:
  "convert_metrics_main metricName (metric # metrics) series =
     convert_metrics_main metricName metrics (convert_metric_main metricName metric series)"
  by (simp add: convert_metrics_main_def)

lemma convert_metrics_main_append:
  "convert_metrics_main metricName metrics series =
     series @ convert_metrics_main metricName metrics []"
proof (induction metrics arbitrary: series)
  case Nil
  show ?case by (simp add: convert_metrics_main_def)
next
  case (Cons metric metrics)
  have "convert_metrics_main metricName (metric # metrics) series =
        convert_metric_main metricName metric series @ convert_metrics_main metricName metrics []"
    by (simp add: convert_metrics_main_Cons
          Cons.IH [of "convert_metric_main metricName metric series"])
  also have "\<dots> = series @ convert_metric_main metricName metric [] @
                      convert_metrics_main metricName metrics []"
    by (simp add: convert_metric_main_append [of metricName metric series])
  also have "\<dots> = series @ convert_metrics_main metricName (metric # metrics) []"
    by (simp add: convert_metrics_main_Cons
          Cons.IH [of "convert_metric_main metricName metric []"])
  finally show ?case .
qed

lemma convert_metrics_main_split:
  "convert_metrics_main metricName (before @ metric # after) [] =
     convert_metrics_main metricName before [] @
     convert_metric_main metricName metric [] @
     convert_metrics_main metricName after []"
proof -
  have "convert_metrics_main metricName (before @ metric # after) [] =
        convert_metrics_main metricName after
          (convert_metric_main metricName metric (convert_metrics_main metricName before []))"
    by (simp add: convert_metrics_main_def)
  also have "\<dots> = convert_metric_main metricName metric (convert_metrics_main metricName before []) @
                   convert_metrics_main metricName after []"
    by (rule convert_metrics_main_append)
  also have "\<dots> = (convert_metrics_main metricName before [] @
                    convert_metric_main metricName metric []) @
                   convert_metrics_main metricName after []"
    by (simp add: convert_metric_main_append
          [of metricName metric "convert_metrics_main metricName before []"])
  finally show ?thesis by simp
qed

lemma MetricFamiliesToTimeSeries_main_lookup:
  assumes "\<forall>g \<in> set post. MetricFamily_Name g \<noteq> MetricFamily_Name metricFamily"
  shows "MetricFamiliesToTimeSeries_main (pre @ metricFamily # post) (MetricFamily_Name metricFamily) =
           Some (convert_family_main metricFamily)"
  unfolding MetricFamiliesToTimeSeries_main_def
  by (rule foldl_upd_lookup [OF assms])

text \<open>
  In closed form: the entry under a name is the series of the last family of that name,
  and there is no entry when the snapshot has no such family.
\<close>

lemma foldl_upd_find:
  "foldl (\<lambda>result x. result(key x \<mapsto> val x)) Map.empty xs k =
     map_option val (find (\<lambda>x. key x = k) (rev xs))"
  by (induction xs rule: rev_induct) simp_all

lemma MetricFamiliesToTimeSeries_find:
  "MetricFamiliesToTimeSeries fmt_g metricFamilies name =
     map_option (convert_family fmt_g)
       (find (\<lambda>metricFamily. MetricFamily_Name metricFamily = name) (rev metricFamilies))"
  unfolding MetricFamiliesToTimeSeries_def by (rule foldl_upd_find)

lemma MetricFamiliesToTimeSeries_main_find:
  "MetricFamiliesToTimeSeries_main metricFamilies name =
     map_option convert_family_main
       (find (\<lambda>metricFamily. MetricFamily_Name metricFamily = name) (rev metricFamilies))"
  unfolding MetricFamiliesToTimeSeries_main_def by (rule foldl_upd_find)

lemma convert_metrics_concat:
  "convert_metrics fmt_g metricName metrics [] =
     concat (map (\<lambda>metric. convert_metric fmt_g metricName metric []) metrics)"
proof (induction metrics)
  case Nil
  show ?case by (simp add: convert_metrics_Nil)
next
  case (Cons metric metrics)
  have "convert_metrics fmt_g metricName (metric # metrics) [] =
        convert_metric fmt_g metricName metric [] @ convert_metrics fmt_g metricName metrics []"
    using convert_metrics_split [of fmt_g metricName "[]" metric metrics]
    by (simp add: convert_metrics_Nil)
  with Cons.IH show ?case by simp
qed

lemma MetricFamiliesToTimeSeries_dom:
  "dom (MetricFamiliesToTimeSeries fmt_g metricFamilies) = MetricFamily_Name ` set metricFamilies"
  unfolding MetricFamiliesToTimeSeries_def
  by (simp add: foldl_upd_dom)

lemma MetricFamiliesToTimeSeries_main_dom:
  "dom (MetricFamiliesToTimeSeries_main metricFamilies) = MetricFamily_Name ` set metricFamilies"
  unfolding MetricFamiliesToTimeSeries_main_def
  by (simp add: foldl_upd_dom)

lemma convert_metrics_main_concat:
  "convert_metrics_main metricName metrics [] =
     concat (map (\<lambda>metric. convert_metric_main metricName metric []) metrics)"
proof (induction metrics)
  case Nil
  show ?case by (simp add: convert_metrics_main_def)
next
  case (Cons metric metrics)
  have "convert_metrics_main metricName (metric # metrics) [] =
        convert_metric_main metricName metric [] @ convert_metrics_main metricName metrics []"
    using convert_metrics_main_split [of metricName "[]" metric metrics]
    by (simp add: convert_metrics_main_def)
  with Cons.IH show ?case by simp
qed

lemma MetricFamiliesToTimeSeries_entry:
  assumes "MetricFamiliesToTimeSeries fmt_g metricFamilies name = Some series"
  shows "\<exists>metricFamily \<in> set metricFamilies.
           MetricFamily_Name metricFamily = name \<and> series = convert_family fmt_g metricFamily"
  using foldl_upd_ran [of MetricFamily_Name "convert_family fmt_g" Map.empty metricFamilies name series]
    assms
  by (simp add: MetricFamiliesToTimeSeries_def)

lemma MetricFamiliesToTimeSeries_main_entry:
  assumes "MetricFamiliesToTimeSeries_main metricFamilies name = Some series"
  shows "\<exists>metricFamily \<in> set metricFamilies.
           MetricFamily_Name metricFamily = name \<and> series = convert_family_main metricFamily"
  using foldl_upd_ran [of MetricFamily_Name convert_family_main Map.empty metricFamilies name series]
    assms
  by (simp add: MetricFamiliesToTimeSeries_main_def)

text \<open>Values the examples use.\<close>

lemma float64_of_uint64_small:
  "float64_of_uint64 1 = 0x3FF0000000000000"
  "float64_of_uint64 2 = 0x4000000000000000"
  "float64_of_uint64 3 = 0x4008000000000000"
  by (simp_all add: float64_of_uint64_def Let_def bits_Len64.simps)

lemma metric_timestamp_0: "Metric_TimestampMs metric = 0 \<Longrightarrow> metric_timestamp metric = 0"
  by (simp add: metric_timestamp_def time_Unix_def)

section \<open>Histograms\<close>

text \<open>
  C1 (as amended). For every histogram metric (counter and gauge payloads not set, histogram
  payload set) with sample sum \<open>S\<close>, sample count \<open>C\<close> and bucket list \<open>buckets\<close>, the
  conversion produces exactly \<open>2 + length buckets\<close> points for that metric: the point
  named family name + \<^verbatim>\<open>_sum\<close> with value \<open>S\<close>, the point named family name + \<^verbatim>\<open>_count\<close>
  with value \<^verbatim>\<open>float64(C)\<close>, and one point per bucket, in the order of the snapshot, named
  family name + \<^verbatim>\<open>_bucket\<close>, with the extra label \<^verbatim>\<open>le\<close> holding the formatted upper bound
  and the value \<^verbatim>\<open>float64\<close> of the cumulative count. The \<^verbatim>\<open>le\<close> label of the final bucket
  is the formatted upper bound of the snapshot's final bucket: it is \<^verbatim>\<open>+Inf\<close> when that
  bound is positive infinity (which \<^verbatim>\<open>%g\<close> renders as \<^verbatim>\<open>+Inf\<close>). The conversion adds no
  bucket of its own. The points stand in the entry of the family between those of the
  metrics before and after, the family being the last of its name in the snapshot.
\<close>

theorem histogram_points:
  assumes "metricFamilies = pre @ metricFamily # post"
    and "\<forall>g \<in> set post. MetricFamily_Name g \<noteq> MetricFamily_Name metricFamily"
    and "MetricFamily_Metric metricFamily = before @ metric # after"
    and "Metric_Counter metric = None" and "Metric_Gauge metric = None"
    and "Metric_Histogram metric =
           Some \<lparr>Histogram_SampleCount = C, Histogram_SampleSum = S, Histogram_Bucket = buckets\<rparr>"
  shows
    "let name = MetricFamily_Name metricFamily;
         L = map (\<lambda>l. \<lparr>Label_Name = LabelPair_Name l, Label_Value = LabelPair_Value l\<rparr>)
               (Metric_Label metric);
         points =
           [\<lparr>TimeSeries_Labels = L @ [\<lparr>Label_Name = ''__name__'', Label_Value = name @ ''_sum''\<rparr>],
             TimeSeries_Datapoint =
               \<lparr>Datapoint_Timestamp = metric_timestamp metric, Datapoint_Value = S\<rparr>\<rparr>,
            \<lparr>TimeSeries_Labels = L @ [\<lparr>Label_Name = ''__name__'', Label_Value = name @ ''_count''\<rparr>],
             TimeSeries_Datapoint =
               \<lparr>Datapoint_Timestamp = metric_timestamp metric,
                Datapoint_Value = float64_of_uint64 C\<rparr>\<rparr>] @
           map (\<lambda>b. \<lparr>TimeSeries_Labels =
                         L @ [\<lparr>Label_Name = ''le'', Label_Value = fmt_g (Bucket_UpperBound b)\<rparr>,
                              \<lparr>Label_Name = ''__name__'', Label_Value = name @ ''_bucket''\<rparr>],
                       TimeSeries_Datapoint =
                         \<lparr>Datapoint_Timestamp = metric_timestamp metric,
                          Datapoint_Value = float64_of_uint64 (Bucket_CumulativeCount b)\<rparr>\<rparr>)
             buckets
     in MetricFamiliesToTimeSeries fmt_g metricFamilies name =
          Some (convert_metrics fmt_g name before [] @ points @ convert_metrics fmt_g name after [])
        \<and> length points = 2 + length buckets
        \<and> (\<forall>bs b. buckets = bs @ [b] \<and> Bucket_UpperBound b = math_Inf \<and> fmt_g math_Inf = ''+Inf''
              \<longrightarrow> TimeSeries_Labels (last points) =
                    L @ [\<lparr>Label_Name = ''le'', Label_Value = ''+Inf''\<rparr>,
                         \<lparr>Label_Name = ''__name__'', Label_Value = name @ ''_bucket''\<rparr>])"
proof -
  let ?name = "MetricFamily_Name metricFamily"
  have "MetricFamiliesToTimeSeries fmt_g metricFamilies ?name =
          Some (convert_family fmt_g metricFamily)"
    unfolding assms(1) by (rule MetricFamiliesToTimeSeries_lookup [OF assms(2)])
  moreover have "convert_family fmt_g metricFamily =
      convert_metrics fmt_g ?name before [] @ convert_metric fmt_g ?name metric [] @
      convert_metrics fmt_g ?name after []"
    by (simp add: convert_family_def assms(3) convert_metrics_split)
  ultimately have entry: "MetricFamiliesToTimeSeries fmt_g metricFamilies ?name =
      Some (convert_metrics fmt_g ?name before [] @ convert_metric fmt_g ?name metric [] @
            convert_metrics fmt_g ?name after [])"
    by simp
  show ?thesis
    using entry
    by (auto simp add: Let_def metric_labels_map
          convert_metric_histogram [OF assms(4) assms(5) assms(6)])
qed

text \<open>
  The scenario of the specification: sum 6000, count 3, buckets (500, 1), (1000, 2),
  (+Inf, 3), followed in the snapshot by a family of another name.
\<close>

theorem histogram_points_witness:
  "MetricFamiliesToTimeSeries fmt_g_examples [example_latency, example_up] ''latency_ms'' =
     Some [\<lparr>TimeSeries_Labels = [\<lparr>Label_Name = ''__name__'', Label_Value = ''latency_ms_sum''\<rparr>],
            TimeSeries_Datapoint =
              \<lparr>Datapoint_Timestamp = 0, Datapoint_Value = 0x40B7700000000000\<rparr>\<rparr>,
           \<lparr>TimeSeries_Labels = [\<lparr>Label_Name = ''__name__'', Label_Value = ''latency_ms_count''\<rparr>],
            TimeSeries_Datapoint =
              \<lparr>Datapoint_Timestamp = 0, Datapoint_Value = 0x4008000000000000\<rparr>\<rparr>,
           \<lparr>TimeSeries_Labels =
              [\<lparr>Label_Name = ''le'', Label_Value = ''500''\<rparr>,
               \<lparr>Label_Name = ''__name__'', Label_Value = ''latency_ms_bucket''\<rparr>],
            TimeSeries_Datapoint =
              \<lparr>Datapoint_Timestamp = 0, Datapoint_Value = 0x3FF0000000000000\<rparr>\<rparr>,
           \<lparr>TimeSeries_Labels =
              [\<lparr>Label_Name = ''le'', Label_Value = ''1000''\<rparr>,
               \<lparr>Label_Name = ''__name__'', Label_Value = ''latency_ms_bucket''\<rparr>],
            TimeSeries_Datapoint =
              \<lparr>Datapoint_Timestamp = 0, Datapoint_Value = 0x4000000000000000\<rparr>\<rparr>,
           \<lparr>TimeSeries_Labels =
              [\<lparr>Label_Name = ''le'', Label_Value = ''+Inf''\<rparr>,
               \<lparr>Label_Name = ''__name__'', Label_Value = ''latency_ms_bucket''\<rparr>],
            TimeSeries_Datapoint =
              \<lparr>Datapoint_Timestamp = 0, Datapoint_Value = 0x4008000000000000\<rparr>\<rparr>]"
proof -
  let ?metric = "hd (MetricFamily_Metric example_latency)"
  have "fmt_g_examples math_Inf = ''+Inf''"
    by (simp add: fmt_g_examples_def math_Inf_def)
  have "metric_timestamp ?metric = 0"
    by (rule metric_timestamp_0) (simp add: example_latency_def)
  with histogram_points
    [of "[example_latency, example_up]" "[]" example_latency "[example_up]" "[]" ?metric "[]"
        3 "0x40B7700000000000"
        "[\<lparr>Bucket_CumulativeCount = 1, Bucket_UpperBound = 0x407F400000000000\<rparr>,
          \<lparr>Bucket_CumulativeCount = 2, Bucket_UpperBound = 0x408F400000000000\<rparr>,
          \<lparr>Bucket_CumulativeCount = 3, Bucket_UpperBound = math_Inf\<rparr>]"
        fmt_g_examples]
  show ?thesis
    by (simp add: example_latency_def example_up_def convert_metrics_Nil Let_def
          float64_of_uint64_small fmt_g_examples_def math_Inf_def)
qed

text \<open>
  C1 as stated fails where the snapshot's final bucket is finite, as in the snapshots of
  a registry that keeps the \<^verbatim>\<open>+Inf\<close> bucket implicit: with the buckets (500, 1) and
  (1000, 2) the final bucket point carries \<^verbatim>\<open>le = 1000\<close>, and no point carries
  \<^verbatim>\<open>le = +Inf\<close>.
\<close>

theorem histogram_final_bucket_counterexample:
  "MetricFamiliesToTimeSeries fmt_g_examples [example_latency_finite] ''latency_ms'' =
     Some [\<lparr>TimeSeries_Labels = [\<lparr>Label_Name = ''__name__'', Label_Value = ''latency_ms_sum''\<rparr>],
            TimeSeries_Datapoint =
              \<lparr>Datapoint_Timestamp = 0, Datapoint_Value = 0x40B7700000000000\<rparr>\<rparr>,
           \<lparr>TimeSeries_Labels = [\<lparr>Label_Name = ''__name__'', Label_Value = ''latency_ms_count''\<rparr>],
            TimeSeries_Datapoint =
              \<lparr>Datapoint_Timestamp = 0, Datapoint_Value = 0x4008000000000000\<rparr>\<rparr>,
           \<lparr>TimeSeries_Labels =
              [\<lparr>Label_Name = ''le'', Label_Value = ''500''\<rparr>,
               \<lparr>Label_Name = ''__name__'', Label_Value = ''latency_ms_bucket''\<rparr>],
            TimeSeries_Datapoint =
              \<lparr>Datapoint_Timestamp = 0, Datapoint_Value = 0x3FF0000000000000\<rparr>\<rparr>,
           \<lparr>TimeSeries_Labels =
              [\<lparr>Label_Name = ''le'', Label_Value = ''1000''\<rparr>,
               \<lparr>Label_Name = ''__name__'', Label_Value = ''latency_ms_bucket''\<rparr>],
            TimeSeries_Datapoint =
              \<lparr>Datapoint_Timestamp = 0, Datapoint_Value = 0x4000000000000000\<rparr>\<rparr>]
   \<and> \<lparr>Label_Name = ''le'', Label_Value = ''+Inf''\<rparr> \<notin>
       set [\<lparr>Label_Name = ''le'', Label_Value = ''1000''\<rparr>,
            \<lparr>Label_Name = ''__name__'', Label_Value = ''latency_ms_bucket''\<rparr>]"
  by (simp add: MetricFamiliesToTimeSeries_def convert_family_def convert_metrics_def
        example_latency_finite_def convert_metric_def metric_labels_def metric_timestamp_0
        Let_def float64_of_uint64_small fmt_g_examples_def math_Inf_def)

section \<open>Summaries\<close>

text \<open>
  C2. For every summary metric (counter, gauge and histogram payloads not set, summary
  payload set) with sample sum \<open>S\<close>, sample count \<open>C\<close> and \<open>n\<close> quantiles, the conversion
  produces exactly \<open>2 + n\<close> points for that metric: the point named family name + \<^verbatim>\<open>_sum\<close>
  with value \<open>S\<close>, the point named family name + \<^verbatim>\<open>_count\<close> with value \<^verbatim>\<open>float64(C)\<close>, and
  one point per quantile, in the order of the snapshot, with the extra label \<^verbatim>\<open>quantile\<close>
  holding the formatted quantile, the value of the quantile as its value, and the bare
  family name as its \<^verbatim>\<open>__name__\<close> label. The points stand in the entry of the family
  between those of the metrics before and after, the family being the last of its name in
  the snapshot.
\<close>

theorem summary_points:
  assumes "metricFamilies = pre @ metricFamily # post"
    and "\<forall>g \<in> set post. MetricFamily_Name g \<noteq> MetricFamily_Name metricFamily"
    and "MetricFamily_Metric metricFamily = before @ metric # after"
    and "Metric_Counter metric = None" and "Metric_Gauge metric = None"
    and "Metric_Histogram metric = None"
    and "Metric_Summary metric =
           Some \<lparr>Summary_SampleCount = C, Summary_SampleSum = S, Summary_Quantile = quantiles\<rparr>"
  shows
    "let name = MetricFamily_Name metricFamily;
         L = map (\<lambda>l. \<lparr>Label_Name = LabelPair_Name l, Label_Value = LabelPair_Value l\<rparr>)
               (Metric_Label metric);
         points =
           [\<lparr>TimeSeries_Labels = L @ [\<lparr>Label_Name = ''__name__'', Label_Value = name @ ''_sum''\<rparr>],
             TimeSeries_Datapoint =
               \<lparr>Datapoint_Timestamp = metric_timestamp metric, Datapoint_Value = S\<rparr>\<rparr>,
            \<lparr>TimeSeries_Labels = L @ [\<lparr>Label_Name = ''__name__'', Label_Value = name @ ''_count''\<rparr>],
             TimeSeries_Datapoint =
               \<lparr>Datapoint_Timestamp = metric_timestamp metric,
                Datapoint_Value = float64_of_uint64 C\<rparr>\<rparr>] @
           map (\<lambda>q. \<lparr>TimeSeries_Labels =
                         L @ [\<lparr>Label_Name = ''quantile'', Label_Value = fmt_g (Quantile_Quantile q)\<rparr>,
                              \<lparr>Label_Name = ''__name__'', Label_Value = name\<rparr>],
                       TimeSeries_Datapoint =
                         \<lparr>Datapoint_Timestamp = metric_timestamp metric,
                          Datapoint_Value = Quantile_Value q\<rparr>\<rparr>)
             quantiles
     in MetricFamiliesToTimeSeries fmt_g metricFamilies name =
          Some (convert_metrics fmt_g name before [] @ points @ convert_metrics fmt_g name after [])
        \<and> length points = 2 + length quantiles"
proof -
  let ?name = "MetricFamily_Name metricFamily"
  have "MetricFamiliesToTimeSeries fmt_g metricFamilies ?name =
          Some (convert_family fmt_g metricFamily)"
    unfolding assms(1) by (rule MetricFamiliesToTimeSeries_lookup [OF assms(2)])
  moreover have "convert_family fmt_g metricFamily =
      convert_metrics fmt_g ?name before [] @ convert_metric fmt_g ?name metric [] @
      convert_metrics fmt_g ?name after []"
    by (simp add: convert_family_def assms(3) convert_metrics_split)
  ultimately show ?thesis
    by (simp add: Let_def metric_labels_map
          convert_metric_summary [OF assms(4) assms(5) assms(6) assms(7)])
qed

theorem summary_points_witness:
  "MetricFamiliesToTimeSeries fmt_g_examples [example_rpc, example_up] ''rpc_latency'' =
     Some [\<lparr>TimeSeries_Labels =
              [\<lparr>Label_Name = ''service'', Label_Value = ''api''\<rparr>,
               \<lparr>Label_Name = ''__name__'', Label_Value = ''rpc_latency_sum''\<rparr>],
            TimeSeries_Datapoint =
              \<lparr>Datapoint_Timestamp = 0, Datapoint_Value = 0x407F400000000000\<rparr>\<rparr>,
           \<lparr>TimeSeries_Labels =
              [\<lparr>Label_Name = ''service'', Label_Value = ''api''\<rparr>,
               \<lparr>Label_Name = ''__name__'', Label_Value = ''rpc_latency_count''\<rparr>],
            TimeSeries_Datapoint =
              \<lparr>Datapoint_Timestamp = 0, Datapoint_Value = 0x4000000000000000\<rparr>\<rparr>,
           \<lparr>TimeSeries_Labels =
              [\<lparr>Label_Name = ''service'', Label_Value = ''api''\<rparr>,
               \<lparr>Label_Name = ''quantile'', Label_Value = ''0.5''\<rparr>,
               \<lparr>Label_Name = ''__name__'', Label_Value = ''rpc_latency''\<rparr>],
            TimeSeries_Datapoint =
              \<lparr>Datapoint_Timestamp = 0, Datapoint_Value = 0x4069000000000000\<rparr>\<rparr>]"
proof -
  let ?metric = "hd (MetricFamily_Metric example_rpc)"
  have "metric_timestamp ?metric = 0"
    by (rule metric_timestamp_0) (simp add: example_rpc_def)
  with summary_points
    [of "[example_rpc, example_up]" "[]" example_rpc "[example_up]" "[]" ?metric "[]"
        2 "0x407F400000000000"
        "[\<lparr>Quantile_Quantile = 0x3FE0000000000000, Quantile_Value = 0x4069000000000000\<rparr>]"
        fmt_g_examples]
  show ?thesis
    by (simp add: example_rpc_def example_up_def convert_metrics_Nil Let_def
          float64_of_uint64_small fmt_g_examples_def)
qed

section \<open>Counters and gauges\<close>

text \<open>
  C3. For every counter or gauge metric with label list \<open>L\<close> and value \<open>v\<close>, the conversion
  produces exactly one point for that metric, whose labels are \<open>L\<close> followed by the label
  \<^verbatim>\<open>__name__\<close> with the family name as its value, and whose value is \<open>v\<close> unchanged. A
  metric is a counter when its counter payload is set, and a gauge when its counter payload
  is not set and its gauge payload is. The metric stands anywhere in its family
  (\<open>before\<close>, \<open>after\<close>), and the family anywhere in the snapshot, no later family having
  its name (such a family would take over the entry of the map, line 430). The point
  stands in the entry of the family between the points of the metrics before and after.
  The same holds for the version of \<^verbatim>\<open>main.go\<close>.
\<close>

theorem counter_gauge_one_point:
  assumes "metricFamilies = pre @ metricFamily # post"
    and "\<forall>g \<in> set post. MetricFamily_Name g \<noteq> MetricFamily_Name metricFamily"
    and "MetricFamily_Metric metricFamily = before @ metric # after"
    and "Metric_Counter metric = Some \<lparr>Counter_Value = v\<rparr> \<or>
         Metric_Counter metric = None \<and> Metric_Gauge metric = Some \<lparr>Gauge_Value = v\<rparr>"
  shows "MetricFamiliesToTimeSeries fmt_g metricFamilies (MetricFamily_Name metricFamily) =
           Some (convert_metrics fmt_g (MetricFamily_Name metricFamily) before [] @
                 [\<lparr>TimeSeries_Labels =
                     map (\<lambda>l. \<lparr>Label_Name = LabelPair_Name l, Label_Value = LabelPair_Value l\<rparr>)
                       (Metric_Label metric) @
                     [\<lparr>Label_Name = ''__name__'',
                       Label_Value = MetricFamily_Name metricFamily\<rparr>],
                   TimeSeries_Datapoint =
                     \<lparr>Datapoint_Timestamp = metric_timestamp metric, Datapoint_Value = v\<rparr>\<rparr>] @
                 convert_metrics fmt_g (MetricFamily_Name metricFamily) after [])
         \<and> MetricFamiliesToTimeSeries_main metricFamilies (MetricFamily_Name metricFamily) =
           Some (convert_metrics_main (MetricFamily_Name metricFamily) before [] @
                 [\<lparr>TimeSeries_Labels =
                     map (\<lambda>l. \<lparr>Label_Name = LabelPair_Name l, Label_Value = LabelPair_Value l\<rparr>)
                       (Metric_Label metric) @
                     [\<lparr>Label_Name = ''__name__'',
                       Label_Value = MetricFamily_Name metricFamily\<rparr>],
                   TimeSeries_Datapoint =
                     \<lparr>Datapoint_Timestamp = metric_timestamp metric, Datapoint_Value = v\<rparr>\<rparr>] @
                 convert_metrics_main (MetricFamily_Name metricFamily) after [])"
proof -
  let ?name = "MetricFamily_Name metricFamily"
  let ?point =
    "\<lparr>TimeSeries_Labels =
        metric_labels metric @ [\<lparr>Label_Name = ''__name__'', Label_Value = ?name\<rparr>],
      TimeSeries_Datapoint =
        \<lparr>Datapoint_Timestamp = metric_timestamp metric, Datapoint_Value = v\<rparr>\<rparr>"
  have one: "convert_metric fmt_g ?name metric [] = [?point]"
    using assms(4)
    by (auto simp add: convert_metric_counter [of metric _ fmt_g ?name "[]"]
          convert_metric_gauge [of metric _ fmt_g ?name "[]"])
  have one_main: "convert_metric_main ?name metric [] = [?point]"
    using assms(4) by (auto simp add: convert_metric_main_eq)
  have "MetricFamiliesToTimeSeries fmt_g metricFamilies ?name =
          Some (convert_family fmt_g metricFamily)"
    unfolding assms(1) by (rule MetricFamiliesToTimeSeries_lookup [OF assms(2)])
  moreover have "convert_family fmt_g metricFamily =
      convert_metrics fmt_g ?name before [] @ [?point] @ convert_metrics fmt_g ?name after []"
    by (simp add: convert_family_def assms(3) convert_metrics_split one)
  moreover have "MetricFamiliesToTimeSeries_main metricFamilies ?name =
          Some (convert_family_main metricFamily)"
    unfolding assms(1) by (rule MetricFamiliesToTimeSeries_main_lookup [OF assms(2)])
  moreover have "convert_family_main metricFamily =
      convert_metrics_main ?name before [] @ [?point] @ convert_metrics_main ?name after []"
    by (simp add: convert_family_main_def assms(3) convert_metrics_main_split one_main)
  ultimately show ?thesis
    by (simp add: metric_labels_map)
qed

theorem counter_gauge_one_point_witness:
  "MetricFamiliesToTimeSeries fmt_g_examples [example_requests, example_up] ''http_requests_total'' =
     Some [\<lparr>TimeSeries_Labels =
              [\<lparr>Label_Name = ''code'', Label_Value = ''200''\<rparr>,
               \<lparr>Label_Name = ''__name__'', Label_Value = ''http_requests_total''\<rparr>],
            TimeSeries_Datapoint =
              \<lparr>Datapoint_Timestamp = 1000000000, Datapoint_Value = 0x4008000000000000\<rparr>\<rparr>,
           \<lparr>TimeSeries_Labels =
              [\<lparr>Label_Name = ''code'', Label_Value = ''500''\<rparr>,
               \<lparr>Label_Name = ''__name__'', Label_Value = ''http_requests_total''\<rparr>],
            TimeSeries_Datapoint =
              \<lparr>Datapoint_Timestamp = 2000000000, Datapoint_Value = 0x3FF0000000000000\<rparr>\<rparr>]
   \<and> MetricFamiliesToTimeSeries_main [example_requests, example_up] ''http_requests_total'' =
     Some [\<lparr>TimeSeries_Labels =
              [\<lparr>Label_Name = ''code'', Label_Value = ''200''\<rparr>,
               \<lparr>Label_Name = ''__name__'', Label_Value = ''http_requests_total''\<rparr>],
            TimeSeries_Datapoint =
              \<lparr>Datapoint_Timestamp = 1000000000, Datapoint_Value = 0x4008000000000000\<rparr>\<rparr>,
           \<lparr>TimeSeries_Labels =
              [\<lparr>Label_Name = ''code'', Label_Value = ''500''\<rparr>,
               \<lparr>Label_Name = ''__name__'', Label_Value = ''http_requests_total''\<rparr>],
            TimeSeries_Datapoint =
              \<lparr>Datapoint_Timestamp = 2000000000, Datapoint_Value = 0x3FF0000000000000\<rparr>\<rparr>]"
  using counter_gauge_one_point
    [of "[example_requests, example_up]" "[]" example_requests "[example_up]"
        "[hd (MetricFamily_Metric example_requests)]"
        "hd (tl (MetricFamily_Metric example_requests))" "[]" "0x3FF0000000000000"
        fmt_g_examples]
  by (simp add: example_requests_def example_up_def convert_metrics_def convert_metric_def
        convert_metrics_main_def convert_metric_main_def metric_labels_def metric_timestamp_def
        time_Unix_def time_Millisecond_def)

section \<open>No error, empty families, unrecognised payloads\<close>

text \<open>
  C4. The conversion has no error result: for every snapshot it returns a map whose keys
  are exactly the names of the families of the snapshot. A family with no metrics maps to
  the empty sequence under its name. A metric with none of the counter, gauge, histogram
  and summary payloads (an untyped metric, say) contributes no point, and every other
  metric of its family is still converted: the entry of the family is the concatenation of
  the points of the metrics before and after it. In both cases the family is the last of
  its name in the snapshot. The snapshot of the model has no \<^verbatim>\<open>nil\<close> entry, as in the data
  model of the specification. The first two statements hold for the version of
  \<^verbatim>\<open>main.go\<close> as well; the third is about the version of \<^verbatim>\<open>part_000\<close>, whose \<^verbatim>\<open>switch\<close>
  decides whether a point is appended.
\<close>

theorem convert_fail_soft:
  "dom (MetricFamiliesToTimeSeries fmt_g metricFamilies) = MetricFamily_Name ` set metricFamilies
   \<and> dom (MetricFamiliesToTimeSeries_main metricFamilies) = MetricFamily_Name ` set metricFamilies
   \<and> (metricFamilies = pre @ emptyFamily # post
        \<and> (\<forall>g \<in> set post. MetricFamily_Name g \<noteq> MetricFamily_Name emptyFamily)
        \<and> MetricFamily_Metric emptyFamily = []
      \<longrightarrow> MetricFamiliesToTimeSeries fmt_g metricFamilies (MetricFamily_Name emptyFamily) = Some []
        \<and> MetricFamiliesToTimeSeries_main metricFamilies (MetricFamily_Name emptyFamily) = Some [])
   \<and> (metricFamilies = pre' @ metricFamily # post'
        \<and> (\<forall>g \<in> set post'. MetricFamily_Name g \<noteq> MetricFamily_Name metricFamily)
        \<and> MetricFamily_Metric metricFamily = before @ metric # after
        \<and> Metric_Counter metric = None \<and> Metric_Gauge metric = None
        \<and> Metric_Histogram metric = None \<and> Metric_Summary metric = None
      \<longrightarrow> MetricFamiliesToTimeSeries fmt_g metricFamilies (MetricFamily_Name metricFamily) =
            Some (concat (map (\<lambda>m. convert_metric fmt_g (MetricFamily_Name metricFamily) m [])
                            (before @ after))))"
proof (intro conjI impI)
  show "dom (MetricFamiliesToTimeSeries fmt_g metricFamilies) =
        MetricFamily_Name ` set metricFamilies"
    by (rule MetricFamiliesToTimeSeries_dom)
next
  show "dom (MetricFamiliesToTimeSeries_main metricFamilies) =
        MetricFamily_Name ` set metricFamilies"
    by (rule MetricFamiliesToTimeSeries_main_dom)
next
  assume a: "metricFamilies = pre @ emptyFamily # post
        \<and> (\<forall>g \<in> set post. MetricFamily_Name g \<noteq> MetricFamily_Name emptyFamily)
        \<and> MetricFamily_Metric emptyFamily = []"
  then have "MetricFamiliesToTimeSeries fmt_g metricFamilies (MetricFamily_Name emptyFamily) =
             Some (convert_family fmt_g emptyFamily)"
    using MetricFamiliesToTimeSeries_lookup [of post emptyFamily fmt_g pre] by simp
  with a show "MetricFamiliesToTimeSeries fmt_g metricFamilies (MetricFamily_Name emptyFamily) =
               Some []"
    by (simp add: convert_family_def convert_metrics_Nil)
  from a have "MetricFamiliesToTimeSeries_main metricFamilies (MetricFamily_Name emptyFamily) =
             Some (convert_family_main emptyFamily)"
    using MetricFamiliesToTimeSeries_main_lookup [of post emptyFamily pre] by simp
  with a show "MetricFamiliesToTimeSeries_main metricFamilies (MetricFamily_Name emptyFamily) =
               Some []"
    by (simp add: convert_family_main_def convert_metrics_main_def)
next
  let ?name = "MetricFamily_Name metricFamily"
  assume a: "metricFamilies = pre' @ metricFamily # post'
        \<and> (\<forall>g \<in> set post'. MetricFamily_Name g \<noteq> MetricFamily_Name metricFamily)
        \<and> MetricFamily_Metric metricFamily = before @ metric # after
        \<and> Metric_Counter metric = None \<and> Metric_Gauge metric = None
        \<and> Metric_Histogram metric = None \<and> Metric_Summary metric = None"
  then have "MetricFamiliesToTimeSeries fmt_g metricFamilies ?name =
             Some (convert_family fmt_g metricFamily)"
    using MetricFamiliesToTimeSeries_lookup [of post' metricFamily fmt_g pre'] by simp
  moreover have "convert_metric fmt_g ?name metric [] = []"
    using a by (simp add: convert_metric_other)
  ultimately show "MetricFamiliesToTimeSeries fmt_g metricFamilies ?name =
      Some (concat (map (\<lambda>m. convert_metric fmt_g ?name m []) (before @ after)))"
    using a by (simp add: convert_family_def convert_metrics_split convert_metrics_concat)
qed

theorem convert_fail_soft_witness:
  "dom (MetricFamiliesToTimeSeries fmt_g_examples [example_mixed, example_no_metrics]) =
     {''mixed'', ''idle''}
   \<and> MetricFamiliesToTimeSeries fmt_g_examples [example_mixed, example_no_metrics] ''idle'' = Some []
   \<and> MetricFamiliesToTimeSeries_main [example_mixed, example_no_metrics] ''idle'' = Some []
   \<and> MetricFamiliesToTimeSeries fmt_g_examples [example_mixed, example_no_metrics] ''mixed'' =
     Some [\<lparr>TimeSeries_Labels = [\<lparr>Label_Name = ''__name__'', Label_Value = ''mixed''\<rparr>],
            TimeSeries_Datapoint =
              \<lparr>Datapoint_Timestamp = 0, Datapoint_Value = 0x4008000000000000\<rparr>\<rparr>,
           \<lparr>TimeSeries_Labels = [\<lparr>Label_Name = ''__name__'', Label_Value = ''mixed''\<rparr>],
            TimeSeries_Datapoint =
              \<lparr>Datapoint_Timestamp = 0, Datapoint_Value = 0x3FF0000000000000\<rparr>\<rparr>]"
  using convert_fail_soft
    [of fmt_g_examples "[example_mixed, example_no_metrics]"
        "[example_mixed]" example_no_metrics "[]"
        "[]" example_mixed "[example_no_metrics]"
        "[hd (MetricFamily_Metric example_mixed)]"
        "hd (tl (MetricFamily_Metric example_mixed))"
        "tl (tl (MetricFamily_Metric example_mixed))"]
  by (simp add: example_mixed_def example_no_metrics_def convert_metric_def metric_labels_def
        metric_timestamp_0 Let_def insert_commute)

text \<open>
  The version of \<^verbatim>\<open>main.go\<close> differs here: it appends one point whatever the payload, with
  the value \<^verbatim>\<open>0.0\<close> for a metric none of whose four payloads is set.
\<close>

lemma unrecognised_metric_main:
  "MetricFamiliesToTimeSeries_main [example_mixed] ''mixed'' =
     Some [\<lparr>TimeSeries_Labels = [\<lparr>Label_Name = ''__name__'', Label_Value = ''mixed''\<rparr>],
            TimeSeries_Datapoint =
              \<lparr>Datapoint_Timestamp = 0, Datapoint_Value = 0x4008000000000000\<rparr>\<rparr>,
           \<lparr>TimeSeries_Labels = [\<lparr>Label_Name = ''__name__'', Label_Value = ''mixed''\<rparr>],
            TimeSeries_Datapoint = \<lparr>Datapoint_Timestamp = 0, Datapoint_Value = 0\<rparr>\<rparr>,
           \<lparr>TimeSeries_Labels = [\<lparr>Label_Name = ''__name__'', Label_Value = ''mixed''\<rparr>],
            TimeSeries_Datapoint =
              \<lparr>Datapoint_Timestamp = 0, Datapoint_Value = 0x3FF0000000000000\<rparr>\<rparr>]"
  by (simp add: MetricFamiliesToTimeSeries_main_def convert_family_main_def
        convert_metrics_main_def convert_metric_main_eq example_mixed_def metric_labels_def
        metric_timestamp_0)

section \<open>Label names of the points\<close>

text \<open>
  The names of the labels of a point, in order; a point is well labelled when exactly one
  of its labels is named \<^verbatim>\<open>__name__\<close> and no two of its labels share a name.
\<close>

definition label_names :: "TimeSeries \<Rightarrow> string list" where
  "label_names ts = map Label_Name (TimeSeries_Labels ts)"

definition well_labelled :: "TimeSeries \<Rightarrow> bool" where
  "well_labelled ts \<longleftrightarrow>
     count_list (label_names ts) ''__name__'' = 1 \<and> distinct (label_names ts)"

text \<open>
  The conversion copies the labels of the source metric and appends its own after them,
  without looking at the names (lines 273 to 292 and 350 to 361). The names of the source
  labels are free when they are pairwise distinct and none of them is a name the conversion
  appends for this metric: \<^verbatim>\<open>__name__\<close>, and \<^verbatim>\<open>le\<close> for a histogram, \<^verbatim>\<open>quantile\<close> for a
  summary.
\<close>

definition source_names_free :: "Metric \<Rightarrow> bool" where
  "source_names_free metric \<longleftrightarrow>
     (let names = map LabelPair_Name (Metric_Label metric)
      in distinct names \<and> ''__name__'' \<notin> set names
         \<and> (Metric_Counter metric = None \<and> Metric_Gauge metric = None
              \<and> Metric_Histogram metric \<noteq> None \<longrightarrow> ''le'' \<notin> set names)
         \<and> (Metric_Counter metric = None \<and> Metric_Gauge metric = None
              \<and> Metric_Histogram metric = None \<and> Metric_Summary metric \<noteq> None
              \<longrightarrow> ''quantile'' \<notin> set names))"

lemma label_names_metric_labels:
  "map Label_Name (metric_labels metric) = map LabelPair_Name (Metric_Label metric)"
  by (simp add: metric_labels_map comp_def)

lemma well_labelled_name:
  assumes "distinct names" and "''__name__'' \<notin> set names"
    and "label_names ts = names @ [''__name__'']"
  shows "well_labelled ts"
  using assms by (simp add: well_labelled_def)

lemma well_labelled_extra:
  assumes "distinct names" and "''__name__'' \<notin> set names" and "extra \<notin> set names"
    and "extra \<noteq> ''__name__''"
    and "label_names ts = names @ [extra, ''__name__'']"
  shows "well_labelled ts"
  using assms by (simp add: well_labelled_def)

lemma convert_metric_well_labelled:
  assumes "source_names_free metric"
    and "ts \<in> set (convert_metric fmt_g metricName metric [])"
  shows "well_labelled ts"
proof -
  let ?names = "map LabelPair_Name (Metric_Label metric)"
  from assms(1) have d: "distinct ?names" and n: "''__name__'' \<notin> set ?names"
    by (simp_all add: source_names_free_def Let_def)
  show ?thesis
  proof (cases "Metric_Counter metric")
    case (Some counter)
    with assms(2) have "label_names ts = ?names @ [''__name__'']"
      by (auto simp add: convert_metric_counter label_names_def label_names_metric_labels)
    with d n show ?thesis by (rule well_labelled_name)
  next
    case c: None
    show ?thesis
    proof (cases "Metric_Gauge metric")
      case (Some gauge)
      with c assms(2) have "label_names ts = ?names @ [''__name__'']"
        by (auto simp add: convert_metric_gauge label_names_def label_names_metric_labels)
      with d n show ?thesis by (rule well_labelled_name)
    next
      case g: None
      show ?thesis
      proof (cases "Metric_Histogram metric")
        case (Some histogram)
        with c g assms(1) have le: "''le'' \<notin> set ?names"
          by (simp add: source_names_free_def Let_def)
        from Some c g assms(2)
        have "label_names ts = ?names @ [''__name__''] \<or>
              label_names ts = ?names @ [''le'', ''__name__'']"
          by (auto simp add: convert_metric_histogram label_names_def label_names_metric_labels)
        then show ?thesis
        proof
          assume "label_names ts = ?names @ [''__name__'']"
          with d n show ?thesis by (rule well_labelled_name)
        next
          assume "label_names ts = ?names @ [''le'', ''__name__'']"
          with d n le show ?thesis by (intro well_labelled_extra [of ?names "''le''"]) simp_all
        qed
      next
        case h: None
        show ?thesis
        proof (cases "Metric_Summary metric")
          case (Some summary)
          with c g h assms(1) have q: "''quantile'' \<notin> set ?names"
            by (simp add: source_names_free_def Let_def)
          from Some c g h assms(2)
          have "label_names ts = ?names @ [''__name__''] \<or>
                label_names ts = ?names @ [''quantile'', ''__name__'']"
            by (auto simp add: convert_metric_summary label_names_def label_names_metric_labels)
          then show ?thesis
          proof
            assume "label_names ts = ?names @ [''__name__'']"
            with d n show ?thesis by (rule well_labelled_name)
          next
            assume "label_names ts = ?names @ [''quantile'', ''__name__'']"
            with d n q show ?thesis
              by (intro well_labelled_extra [of ?names "''quantile''"]) simp_all
          qed
        next
          case None
          with c g h assms(2) show ?thesis by (simp add: convert_metric_other)
        qed
      qed
    qed
  qed
qed

lemma convert_metric_main_well_labelled:
  assumes "source_names_free metric"
    and "ts \<in> set (convert_metric_main metricName metric [])"
  shows "well_labelled ts"
proof -
  let ?names = "map LabelPair_Name (Metric_Label metric)"
  from assms(1) have d: "distinct ?names" and n: "''__name__'' \<notin> set ?names"
    by (simp_all add: source_names_free_def Let_def)
  from assms(2) have "label_names ts = ?names @ [''__name__'']"
    by (simp add: convert_metric_main_eq label_names_def label_names_metric_labels)
  with d n show ?thesis by (rule well_labelled_name)
qed

text \<open>
  C5 (as amended). For every snapshot in which the label names of every source metric are
  free, every point the conversion produces carries exactly one label named \<^verbatim>\<open>__name__\<close>
  and no two labels of the same name. This holds for both versions.
\<close>

theorem points_well_labelled:
  assumes "\<forall>metricFamily \<in> set metricFamilies.
             \<forall>metric \<in> set (MetricFamily_Metric metricFamily). source_names_free metric"
  shows "(\<forall>name series ts.
            MetricFamiliesToTimeSeries fmt_g metricFamilies name = Some series \<and> ts \<in> set series
            \<longrightarrow> well_labelled ts)
       \<and> (\<forall>name series ts.
            MetricFamiliesToTimeSeries_main metricFamilies name = Some series \<and> ts \<in> set series
            \<longrightarrow> well_labelled ts)"
proof (intro conjI allI impI)
  fix name series ts
  assume a: "MetricFamiliesToTimeSeries fmt_g metricFamilies name = Some series \<and> ts \<in> set series"
  then obtain metricFamily where mf: "metricFamily \<in> set metricFamilies"
    and s: "series = convert_family fmt_g metricFamily"
    using MetricFamiliesToTimeSeries_entry by blast
  with a obtain metric where m: "metric \<in> set (MetricFamily_Metric metricFamily)"
    and ts: "ts \<in> set (convert_metric fmt_g (MetricFamily_Name metricFamily) metric [])"
    by (auto simp add: convert_family_def convert_metrics_concat)
  from assms mf m have "source_names_free metric" by blast
  then show "well_labelled ts" using ts by (rule convert_metric_well_labelled)
next
  fix name series ts
  assume a: "MetricFamiliesToTimeSeries_main metricFamilies name = Some series \<and> ts \<in> set series"
  then obtain metricFamily where mf: "metricFamily \<in> set metricFamilies"
    and s: "series = convert_family_main metricFamily"
    using MetricFamiliesToTimeSeries_main_entry by blast
  with a obtain metric where m: "metric \<in> set (MetricFamily_Metric metricFamily)"
    and ts: "ts \<in> set (convert_metric_main (MetricFamily_Name metricFamily) metric [])"
    by (auto simp add: convert_family_main_def convert_metrics_main_concat)
  from assms mf m have "source_names_free metric" by blast
  then show "well_labelled ts" using ts by (rule convert_metric_main_well_labelled)
qed

theorem points_well_labelled_witness:
  "well_labelled
     \<lparr>TimeSeries_Labels =
        [\<lparr>Label_Name = ''code'', Label_Value = ''200''\<rparr>,
         \<lparr>Label_Name = ''__name__'', Label_Value = ''http_requests_total''\<rparr>],
      TimeSeries_Datapoint =
        \<lparr>Datapoint_Timestamp = 1000000000, Datapoint_Value = 0x4008000000000000\<rparr>\<rparr>
   \<and> well_labelled
     \<lparr>TimeSeries_Labels =
        [\<lparr>Label_Name = ''service'', Label_Value = ''api''\<rparr>,
         \<lparr>Label_Name = ''quantile'', Label_Value = ''0.5''\<rparr>,
         \<lparr>Label_Name = ''__name__'', Label_Value = ''rpc_latency''\<rparr>],
      TimeSeries_Datapoint =
        \<lparr>Datapoint_Timestamp = 0, Datapoint_Value = 0x4069000000000000\<rparr>\<rparr>"
proof -
  let ?snapshot = "[example_requests, example_rpc]"
  have free: "\<forall>metricFamily \<in> set ?snapshot.
                \<forall>metric \<in> set (MetricFamily_Metric metricFamily). source_names_free metric"
    by (simp add: example_requests_def example_rpc_def source_names_free_def)
  have requests: "MetricFamiliesToTimeSeries fmt_g_examples ?snapshot ''http_requests_total'' =
      Some (convert_family fmt_g_examples example_requests)"
    using MetricFamiliesToTimeSeries_lookup [of "[example_rpc]" example_requests fmt_g_examples "[]"]
    by (simp add: example_requests_def example_rpc_def)
  have rpc: "MetricFamiliesToTimeSeries fmt_g_examples ?snapshot ''rpc_latency'' =
      Some (convert_family fmt_g_examples example_rpc)"
    using MetricFamiliesToTimeSeries_lookup [of "[]" example_rpc fmt_g_examples "[example_requests]"]
    by (simp add: example_rpc_def)
  have 1: "\<lparr>TimeSeries_Labels =
        [\<lparr>Label_Name = ''code'', Label_Value = ''200''\<rparr>,
         \<lparr>Label_Name = ''__name__'', Label_Value = ''http_requests_total''\<rparr>],
      TimeSeries_Datapoint =
        \<lparr>Datapoint_Timestamp = 1000000000, Datapoint_Value = 0x4008000000000000\<rparr>\<rparr>
      \<in> set (convert_family fmt_g_examples example_requests)"
    by (simp add: convert_family_def convert_metrics_def convert_metric_def example_requests_def
          metric_labels_def metric_timestamp_def time_Unix_def time_Millisecond_def)
  have 2: "\<lparr>TimeSeries_Labels =
        [\<lparr>Label_Name = ''service'', Label_Value = ''api''\<rparr>,
         \<lparr>Label_Name = ''quantile'', Label_Value = ''0.5''\<rparr>,
         \<lparr>Label_Name = ''__name__'', Label_Value = ''rpc_latency''\<rparr>],
      TimeSeries_Datapoint =
        \<lparr>Datapoint_Timestamp = 0, Datapoint_Value = 0x4069000000000000\<rparr>\<rparr>
      \<in> set (convert_family fmt_g_examples example_rpc)"
    by (simp add: convert_family_def convert_metrics_def convert_metric_def example_rpc_def
          metric_labels_def metric_timestamp_0 fmt_g_examples_def Let_def)
  from points_well_labelled [OF free, of fmt_g_examples] requests rpc 1 2
  show ?thesis by blast
qed

text \<open>
  C5 as stated fails where a source metric already carries a label named \<^verbatim>\<open>__name__\<close>,
  \<^verbatim>\<open>le\<close> (on a histogram) or \<^verbatim>\<open>quantile\<close> (on a summary): the source label is kept and
  the label of the conversion is appended after it, so the name occurs twice.
\<close>

theorem reserved_label_counterexample:
  "map_option (map label_names)
     (MetricFamiliesToTimeSeries fmt_g_examples example_reserved ''jobs'') =
     Some [[''__name__'', ''__name__'']]
   \<and> map_option (map label_names)
     (MetricFamiliesToTimeSeries fmt_g_examples example_reserved ''latency_ms'') =
     Some [[''le'', ''__name__''], [''le'', ''__name__''], [''le'', ''le'', ''__name__'']]
   \<and> map_option (map label_names)
     (MetricFamiliesToTimeSeries fmt_g_examples example_reserved ''rpc_latency'') =
     Some [[''quantile'', ''__name__''], [''quantile'', ''__name__''],
           [''quantile'', ''quantile'', ''__name__'']]
   \<and> map_option (list_all well_labelled)
     (MetricFamiliesToTimeSeries fmt_g_examples example_reserved ''jobs'') = Some False
   \<and> map_option (list_all well_labelled)
     (MetricFamiliesToTimeSeries fmt_g_examples example_reserved ''latency_ms'') = Some False
   \<and> map_option (list_all well_labelled)
     (MetricFamiliesToTimeSeries fmt_g_examples example_reserved ''rpc_latency'') = Some False
   \<and> map_option (list_all well_labelled)
     (MetricFamiliesToTimeSeries_main example_reserved ''jobs'') = Some False"
  by (simp add: MetricFamiliesToTimeSeries_def MetricFamiliesToTimeSeries_main_def
        convert_family_def convert_family_main_def convert_metrics_def convert_metrics_main_def
        convert_metric_def convert_metric_main_eq example_reserved_def metric_labels_def
        label_names_def well_labelled_def Let_def)

section \<open>Flattening\<close>

text \<open>
  The loop of \<^verbatim>\<open>FlattenTimeSeriesMap\<close> appends the sequence of each key it visits, so its
  result is the concatenation of the sequences in the order of the visit.
\<close>

lemma FlattenTimeSeriesMap_concat:
  "foldl (\<lambda>result k. case timeSeriesMap k of Some series \<Rightarrow> result @ series | None \<Rightarrow> result)
     result order =
   result @ concat (map (\<lambda>k. case timeSeriesMap k of Some series \<Rightarrow> series | None \<Rightarrow> []) order)"
  by (induction order arbitrary: result) (simp_all split: option.split)

lemma FlattenTimeSeriesMap_append:
  "FlattenTimeSeriesMap (visited @ rest) timeSeriesMap =
     FlattenTimeSeriesMap visited timeSeriesMap @ FlattenTimeSeriesMap rest timeSeriesMap"
  by (simp add: FlattenTimeSeriesMap_def FlattenTimeSeriesMap_concat)

lemma FlattenTimeSeriesMap_key:
  "timeSeriesMap k = Some series \<Longrightarrow> FlattenTimeSeriesMap [k] timeSeriesMap = series"
  by (simp add: FlattenTimeSeriesMap_def)

lemma FlattenTimeSeriesMap_length:
  "length (FlattenTimeSeriesMap order timeSeriesMap) =
     sum_list (map (\<lambda>k. case timeSeriesMap k of Some series \<Rightarrow> length series | None \<Rightarrow> 0) order)"
proof -
  have "length \<circ> (\<lambda>k. case timeSeriesMap k of Some series \<Rightarrow> series | None \<Rightarrow> []) =
        (\<lambda>k. case timeSeriesMap k of Some series \<Rightarrow> length series | None \<Rightarrow> 0)"
    by (auto split: option.split)
  then show ?thesis
    by (simp add: FlattenTimeSeriesMap_def FlattenTimeSeriesMap_concat length_concat)
qed

text \<open>
  C6. For every map from names to point sequences and every order in which the \<^verbatim>\<open>range\<close>
  loop visits its keys (each key once), the flattened sequence has as many points as the
  sequences of the map together, and the sequence of each family stands in it unchanged
  and unbroken: the output is what the loop appended for the keys visited before, then the
  sequence of the family, then what the loop appends for the rest. So the points of a
  family keep their relative order.
\<close>

theorem flatten_length_order:
  assumes "range_order order timeSeriesMap"
  shows "length (FlattenTimeSeriesMap order timeSeriesMap) =
           (\<Sum>k \<in> dom timeSeriesMap.
              case timeSeriesMap k of Some series \<Rightarrow> length series | None \<Rightarrow> 0)
       \<and> (\<forall>k series. timeSeriesMap k = Some series \<longrightarrow>
            (\<exists>visited rest. order = visited @ k # rest \<and>
               FlattenTimeSeriesMap order timeSeriesMap =
                 FlattenTimeSeriesMap visited timeSeriesMap @ series @
                 FlattenTimeSeriesMap rest timeSeriesMap))"
proof (intro conjI allI impI)
  from assms have d: "distinct order" and s: "set order = dom timeSeriesMap"
    by (simp_all add: range_order_def)
  show "length (FlattenTimeSeriesMap order timeSeriesMap) =
          (\<Sum>k \<in> dom timeSeriesMap.
             case timeSeriesMap k of Some series \<Rightarrow> length series | None \<Rightarrow> 0)"
    using sum_list_distinct_conv_sum_set [OF d,
        of "\<lambda>k. case timeSeriesMap k of Some series \<Rightarrow> length series | None \<Rightarrow> 0"]
    by (simp add: FlattenTimeSeriesMap_length s)
  fix k series
  assume k: "timeSeriesMap k = Some series"
  with s have "k \<in> set order" by auto
  then obtain visited rest where o: "order = visited @ k # rest"
    by (auto simp add: in_set_conv_decomp)
  have "FlattenTimeSeriesMap (visited @ [k] @ rest) timeSeriesMap =
        FlattenTimeSeriesMap visited timeSeriesMap @ series @
        FlattenTimeSeriesMap rest timeSeriesMap"
    using FlattenTimeSeriesMap_key [of timeSeriesMap k series, OF k]
    by (simp only: FlattenTimeSeriesMap_append)
  with o show "\<exists>visited rest. order = visited @ k # rest \<and>
      FlattenTimeSeriesMap order timeSeriesMap =
        FlattenTimeSeriesMap visited timeSeriesMap @ series @
        FlattenTimeSeriesMap rest timeSeriesMap"
    by auto
qed

text \<open>
  The map of the snapshot with the families \<^verbatim>\<open>http_requests_total\<close> (two points) and
  \<^verbatim>\<open>up\<close> (one point), visited in the order \<^verbatim>\<open>up\<close>, \<^verbatim>\<open>http_requests_total\<close>.
\<close>

theorem flatten_length_order_witness:
  "length (FlattenTimeSeriesMap [''up'', ''http_requests_total'']
             (MetricFamiliesToTimeSeries fmt_g_examples [example_requests, example_up])) = 3
   \<and> FlattenTimeSeriesMap [''up'', ''http_requests_total'']
        (MetricFamiliesToTimeSeries fmt_g_examples [example_requests, example_up]) =
      convert_family fmt_g_examples example_up @ convert_family fmt_g_examples example_requests"
proof -
  let ?m = "MetricFamiliesToTimeSeries fmt_g_examples [example_requests, example_up]"
  let ?order = "[''up'', ''http_requests_total'']"
  have up: "?m ''up'' = Some (convert_family fmt_g_examples example_up)"
    using MetricFamiliesToTimeSeries_lookup [of "[]" example_up fmt_g_examples "[example_requests]"]
    by (simp add: example_up_def)
  have requests: "?m ''http_requests_total'' = Some (convert_family fmt_g_examples example_requests)"
    using MetricFamiliesToTimeSeries_lookup [of "[example_up]" example_requests fmt_g_examples "[]"]
    by (simp add: example_up_def example_requests_def)
  have dom: "dom ?m = {''http_requests_total'', ''up''}"
    by (simp add: MetricFamiliesToTimeSeries_dom example_up_def example_requests_def)
  then have order: "range_order ?order ?m"
    by (auto simp add: range_order_def)
  have len: "length (convert_family fmt_g_examples example_up) = 1"
    "length (convert_family fmt_g_examples example_requests) = 2"
    by (simp_all add: convert_family_def convert_metrics_def convert_metric_def
          example_up_def example_requests_def)
  from flatten_length_order [OF order]
  have "length (FlattenTimeSeriesMap ?order ?m) =
          (\<Sum>k \<in> dom ?m. case ?m k of Some series \<Rightarrow> length series | None \<Rightarrow> 0)"
    by (rule conjunct1)
  also have "\<dots> = 3"
    by (simp add: dom up requests len)
  finally have "length (FlattenTimeSeriesMap ?order ?m) = 3" .
  moreover have "FlattenTimeSeriesMap ?order ?m =
      convert_family fmt_g_examples example_up @ convert_family fmt_g_examples example_requests"
    by (simp add: FlattenTimeSeriesMap_def up requests)
  ultimately show ?thesis by simp
qed

section \<open>Determinism\<close>



section \<open>Timestamps\<close>

text \<open>
  Every point of a metric carries the timestamp computed once for the metric (line 282).
\<close>

lemma convert_metric_timestamp:
  assumes "ts \<in> set (convert_metric fmt_g metricName metric [])"
  shows "Datapoint_Timestamp (TimeSeries_Datapoint ts) = metric_timestamp metric"
proof (cases "Metric_Counter metric")
  case (Some counter)
  with assms show ?thesis by (auto simp add: convert_metric_counter)
next
  case c: None
  show ?thesis
  proof (cases "Metric_Gauge metric")
    case (Some gauge)
    with c assms show ?thesis by (auto simp add: convert_metric_gauge)
  next
    case g: None
    show ?thesis
    proof (cases "Metric_Histogram metric")
      case (Some histogram)
      with c g assms show ?thesis by (auto simp add: convert_metric_histogram)
    next
      case h: None
      show ?thesis
      proof (cases "Metric_Summary metric")
        case (Some summary)
        with c g h assms show ?thesis by (auto simp add: convert_metric_summary)
      next
        case None
        with c g h assms show ?thesis by (simp add: convert_metric_other)
      qed
    qed
  qed
qed

text \<open>
  The timestamp is the instant \<^verbatim>\<open>TimestampMs\<close> milliseconds after the epoch as long as the
  product with \<^verbatim>\<open>time.Millisecond\<close> fits into an \<^verbatim>\<open>int64\<close>, that is for at most
  9223372036854 milliseconds either side of the epoch.
\<close>

lemma metric_timestamp_in_range:
  assumes "- 9223372036854 \<le> sint (Metric_TimestampMs metric)"
    and "sint (Metric_TimestampMs metric) \<le> 9223372036854"
  shows "metric_timestamp metric = sint (Metric_TimestampMs metric) * 1000000"
proof -
  let ?ms = "Metric_TimestampMs metric"
  have "sint (?ms * 1000000) = signed_take_bit 63 (sint ?ms * 1000000)"
    by (simp add: sint_word_ariths)
  also have "\<dots> = sint ?ms * 1000000"
    using assms by (intro signed_take_bit_int_eq_self) simp_all
  finally show ?thesis
    by (simp add: metric_timestamp_def time_Unix_def time_Millisecond_def)
qed

text \<open>
  The scenario of the specification: the counter family \<^verbatim>\<open>requests_total\<close> with no labels,
  value 3 and timestamp 0 converts to one point, at the epoch.
\<close>

lemma requests_total_scenario:
  "MetricFamiliesToTimeSeries fmt_g [example_requests_total] ''requests_total'' =
     Some [\<lparr>TimeSeries_Labels = [\<lparr>Label_Name = ''__name__'', Label_Value = ''requests_total''\<rparr>],
            TimeSeries_Datapoint =
              \<lparr>Datapoint_Timestamp = 0, Datapoint_Value = 0x4008000000000000\<rparr>\<rparr>]"
  by (simp add: MetricFamiliesToTimeSeries_def convert_family_def convert_metrics_def
        convert_metric_def example_requests_total_def metric_labels_def metric_timestamp_0)

text \<open>
  C9. The timestamp of every point of a metric is meant to be the instant \<^verbatim>\<open>TimestampMs\<close>
  milliseconds after the epoch. The multiplication
  \<^verbatim>\<open>metric.GetTimestampMs()*int64(time.Millisecond)\<close> wraps around, however: for the
  timestamp 9223372036855 (in the year 2262), which denotes the instant
  9223372036855000000 nanoseconds after the epoch, both versions produce the instant
  9223372036854551616 nanoseconds before the epoch (in the year 1677).
\<close>

theorem timestamp_overflow:
  "MetricFamiliesToTimeSeries fmt_g_examples [example_far_future] ''requests_total'' =
     Some [\<lparr>TimeSeries_Labels = [\<lparr>Label_Name = ''__name__'', Label_Value = ''requests_total''\<rparr>],
            TimeSeries_Datapoint =
              \<lparr>Datapoint_Timestamp = - 9223372036854551616,
               Datapoint_Value = 0x4008000000000000\<rparr>\<rparr>]
   \<and> MetricFamiliesToTimeSeries_main [example_far_future] ''requests_total'' =
     Some [\<lparr>TimeSeries_Labels = [\<lparr>Label_Name = ''__name__'', Label_Value = ''requests_total''\<rparr>],
            TimeSeries_Datapoint =
              \<lparr>Datapoint_Timestamp = - 9223372036854551616,
               Datapoint_Value = 0x4008000000000000\<rparr>\<rparr>]
   \<and> sint (9223372036855 :: int64) * 1000000 = (9223372036855000000 :: int)"
  by (simp add: MetricFamiliesToTimeSeries_def MetricFamiliesToTimeSeries_main_def
        convert_family_def convert_family_main_def convert_metrics_def convert_metrics_main_def
        convert_metric_def convert_metric_main_eq example_far_future_def metric_labels_def
        metric_timestamp_def time_Unix_def time_Millisecond_def)

section \<open>The two versions\<close>

text \<open>
  For a counter or a gauge the two versions append the same point.
\<close>

lemma convert_metric_eq_main:
  assumes "Metric_Counter metric \<noteq> None \<or> Metric_Gauge metric \<noteq> None"
  shows "convert_metric fmt_g metricName metric series = convert_metric_main metricName metric series"
proof (cases "Metric_Counter metric")
  case (Some counter)
  then show ?thesis
    by (simp add: convert_metric_counter convert_metric_main_eq)
next
  case None
  with assms obtain gauge where "Metric_Gauge metric = Some gauge" by auto
  with None show ?thesis
    by (simp add: convert_metric_gauge convert_metric_main_eq)
qed

lemma convert_metrics_eq_main:
  assumes "\<forall>metric \<in> set metrics. Metric_Counter metric \<noteq> None \<or> Metric_Gauge metric \<noteq> None"
  shows "convert_metrics fmt_g metricName metrics series =
         convert_metrics_main metricName metrics series"
  using assms
proof (induction metrics arbitrary: series)
  case Nil
  show ?case by (simp add: convert_metrics_def convert_metrics_main_def)
next
  case (Cons metric metrics)
  then show ?case
    by (simp add: convert_metrics_Cons convert_metrics_main_Cons convert_metric_eq_main)
qed

lemma foldl_upd_cong:
  assumes "\<forall>x \<in> set xs. val x = val' x"
  shows "foldl (\<lambda>result x. result(key x \<mapsto> val x)) result xs =
         foldl (\<lambda>result x. result(key x \<mapsto> val' x)) result xs"
  using assms by (induction xs arbitrary: result) simp_all

text \<open>
  C10. For every snapshot in which every metric is a counter or a gauge (its counter or
  its gauge payload is set), the version of \<^verbatim>\<open>part_000\<close> and the version of \<^verbatim>\<open>main.go\<close>
  return the same map; and there is a snapshot with a histogram metric on which they
  differ: the histogram scenario of the specification, for which the first returns five
  points and the second one.
\<close>

theorem versions_agree_on_counters_and_gauges:
  "((\<forall>metricFamily \<in> set metricFamilies. \<forall>metric \<in> set (MetricFamily_Metric metricFamily).
       Metric_Counter metric \<noteq> None \<or> Metric_Gauge metric \<noteq> None)
    \<longrightarrow> MetricFamiliesToTimeSeries fmt_g metricFamilies =
         MetricFamiliesToTimeSeries_main metricFamilies)
   \<and> (\<exists>snapshot.
        (\<exists>metricFamily \<in> set snapshot. \<exists>metric \<in> set (MetricFamily_Metric metricFamily).
           Metric_Counter metric = None \<and> Metric_Gauge metric = None \<and>
           (Metric_Histogram metric \<noteq> None \<or> Metric_Summary metric \<noteq> None))
        \<and> MetricFamiliesToTimeSeries fmt_g snapshot \<noteq> MetricFamiliesToTimeSeries_main snapshot)"
proof (intro conjI impI)
  assume a: "\<forall>metricFamily \<in> set metricFamilies. \<forall>metric \<in> set (MetricFamily_Metric metricFamily).
       Metric_Counter metric \<noteq> None \<or> Metric_Gauge metric \<noteq> None"
  have "\<forall>metricFamily \<in> set metricFamilies.
          convert_family fmt_g metricFamily = convert_family_main metricFamily"
    using a by (simp add: convert_family_def convert_family_main_def convert_metrics_eq_main)
  then show "MetricFamiliesToTimeSeries fmt_g metricFamilies =
             MetricFamiliesToTimeSeries_main metricFamilies"
    unfolding MetricFamiliesToTimeSeries_def MetricFamiliesToTimeSeries_main_def
    by (rule foldl_upd_cong)
next
  let ?snapshot = "[example_latency]"
  have "MetricFamiliesToTimeSeries fmt_g ?snapshot ''latency_ms'' =
        Some (convert_family fmt_g example_latency)"
    using MetricFamiliesToTimeSeries_lookup [of "[]" example_latency fmt_g "[]"]
    by (simp add: example_latency_def)
  moreover have "length (convert_family fmt_g example_latency) = 5"
    by (simp add: convert_family_def convert_metrics_def example_latency_def
          convert_metric_histogram [where series = "[]"])
  moreover have "MetricFamiliesToTimeSeries_main ?snapshot ''latency_ms'' =
        Some (convert_family_main example_latency)"
    using MetricFamiliesToTimeSeries_main_lookup [of "[]" example_latency "[]"]
    by (simp add: example_latency_def)
  moreover have "length (convert_family_main example_latency) = 1"
    by (simp add: convert_family_main_def convert_metrics_main_def example_latency_def
          convert_metric_main_eq)
  ultimately have "MetricFamiliesToTimeSeries fmt_g ?snapshot ''latency_ms'' \<noteq>
                   MetricFamiliesToTimeSeries_main ?snapshot ''latency_ms''"
    by auto
  then have "MetricFamiliesToTimeSeries fmt_g ?snapshot \<noteq>
             MetricFamiliesToTimeSeries_main ?snapshot"
    by auto
  moreover have "\<exists>metricFamily \<in> set ?snapshot. \<exists>metric \<in> set (MetricFamily_Metric metricFamily).
           Metric_Counter metric = None \<and> Metric_Gauge metric = None \<and>
           (Metric_Histogram metric \<noteq> None \<or> Metric_Summary metric \<noteq> None)"
    by (simp add: example_latency_def)
  ultimately show "\<exists>snapshot.
        (\<exists>metricFamily \<in> set snapshot. \<exists>metric \<in> set (MetricFamily_Metric metricFamily).
           Metric_Counter metric = None \<and> Metric_Gauge metric = None \<and>
           (Metric_Histogram metric \<noteq> None \<or> Metric_Summary metric \<noteq> None))
        \<and> MetricFamiliesToTimeSeries fmt_g snapshot \<noteq> MetricFamiliesToTimeSeries_main snapshot"
    by blast
qed

theorem versions_agree_witness:
  "MetricFamiliesToTimeSeries fmt_g_examples [example_requests, example_up] =
   MetricFamiliesToTimeSeries_main [example_requests, example_up]"
proof -
  have "\<forall>metricFamily \<in> set [example_requests, example_up].
          \<forall>metric \<in> set (MetricFamily_Metric metricFamily).
            Metric_Counter metric \<noteq> None \<or> Metric_Gauge metric \<noteq> None"
    by (simp add: example_requests_def example_up_def)
  with versions_agree_on_counters_and_gauges [of "[example_requests, example_up]" fmt_g_examples]
  show ?thesis by blast
qed

end
